theory Spec2Isabelle
  imports Main "HOL-Library.Sublist"
begin

section \<open>The git fetcher of vendir (pkg/vendir/fetch/git/git.go)\<close>

text \<open>
  The fetcher is a sequence of calls to the outside world: the secret store, the temp
  area, the file system and the \<open>git\<close> executable. The model keeps the fetcher's own
  control flow and string building as HOL functions and makes the outside world explicit:
  \<^item> every call with an effect is appended to a trace of events, together with what it
    returned;
  \<^item> what a call returns is read from a record \<open>sys\<close> of functions, which may look at
    the trace so far, so that a subprocess can depend on everything done before it.
  A Go \<open>error\<close> is the string of its message; \<open>(T, error)\<close> is \<open>string + T\<close> with
  \<open>Inl\<close> the error, and a lone \<open>error\<close> is \<open>string option\<close> with \<open>None\<close> for nil.
  Strings are byte lists, as Go's are.
\<close>

subsection \<open>Package strings and fmt\<close>

definition nl :: char where
  "nl = CHR 0x0A"

definition quote :: char where
  "quote = CHR 0x27"

text \<open>\<open>strings.Join(elems, sep)\<close>.\<close>

fun strings_Join :: "string list \<Rightarrow> string \<Rightarrow> string" where
  "strings_Join [] sep = []"
| "strings_Join [a] sep = a"
| "strings_Join (a # b # bs) sep = a @ sep @ strings_Join (b # bs) sep"

text \<open>The verb \<open>%s\<close> of fmt applied to a \<open>[]string\<close>: the elements between brackets,
  separated by one space.\<close>

definition fmt_strings :: "string list \<Rightarrow> string" where
  "fmt_strings xs = ''['' @ strings_Join xs '' '' @ '']''"

text \<open>\<open>strings.HasPrefix(s, prefix)\<close>.\<close>

definition strings_HasPrefix :: "string \<Rightarrow> string \<Rightarrow> bool" where
  "strings_HasPrefix s p = prefix p s"

text \<open>
  \<open>strings.Split(s, sep)\<close> for a separator of one byte, which is how the source calls it:
  the pieces of \<open>s\<close> between the separators, one more piece than there are separators
  (so a single empty piece for the empty string).
\<close>

fun strings_Split :: "string \<Rightarrow> char \<Rightarrow> string list" where
  "strings_Split [] sep = [[]]"
| "strings_Split (c # cs) sep =
     (if c = sep then [] # strings_Split cs sep
      else (case strings_Split cs sep of
              [] \<Rightarrow> [[c]]
            | p # ps \<Rightarrow> (c # p) # ps))"

text \<open>
  \<open>strings.TrimSpace(s)\<close> removes the leading and the trailing white space, as defined
  by Unicode, from the UTF-8 string \<open>s\<close>. The white space code points are U+0009 to
  U+000D, U+0020, U+0085, U+00A0, U+1680, U+2000 to U+200A, U+2028, U+2029, U+202F,
  U+205F and U+3000; \<open>space_seqs\<close> lists their UTF-8 encodings. An encoding starts with
  its only byte that is not a continuation byte, so decoding the first (the last) rune
  of \<open>s\<close> gives a white space exactly when one of the encodings is a prefix (a suffix)
  of \<open>s\<close>.
\<close>

definition space_seqs :: "string list" where
  "space_seqs =
     [[CHR 0x09], [CHR 0x0A], [CHR 0x0B], [CHR 0x0C], [CHR 0x0D], [CHR 0x20],
      [CHR 0xC2, CHR 0x85], [CHR 0xC2, CHR 0xA0],
      [CHR 0xE1, CHR 0x9A, CHR 0x80],
      [CHR 0xE2, CHR 0x80, CHR 0x80], [CHR 0xE2, CHR 0x80, CHR 0x81],
      [CHR 0xE2, CHR 0x80, CHR 0x82], [CHR 0xE2, CHR 0x80, CHR 0x83],
      [CHR 0xE2, CHR 0x80, CHR 0x84], [CHR 0xE2, CHR 0x80, CHR 0x85],
      [CHR 0xE2, CHR 0x80, CHR 0x86], [CHR 0xE2, CHR 0x80, CHR 0x87],
      [CHR 0xE2, CHR 0x80, CHR 0x88], [CHR 0xE2, CHR 0x80, CHR 0x89],
      [CHR 0xE2, CHR 0x80, CHR 0x8A],
      [CHR 0xE2, CHR 0x80, CHR 0xA8], [CHR 0xE2, CHR 0x80, CHR 0xA9],
      [CHR 0xE2, CHR 0x80, CHR 0xAF],
      [CHR 0xE2, CHR 0x81, CHR 0x9F],
      [CHR 0xE3, CHR 0x80, CHR 0x80]]"

text \<open>The width in bytes of the white space rune that \<open>s\<close> starts with (ends with),
  0 when it starts (ends) with none.\<close>

definition leading_space :: "string \<Rightarrow> nat" where
  "leading_space s = (case find (\<lambda>p. prefix p s) space_seqs of None \<Rightarrow> 0 | Some p \<Rightarrow> length p)"

definition trailing_space :: "string \<Rightarrow> nat" where
  "trailing_space s = (case find (\<lambda>p. suffix p s) space_seqs of None \<Rightarrow> 0 | Some p \<Rightarrow> length p)"

lemma leading_space_le: "leading_space s \<le> length s"
  by (auto simp: leading_space_def find_Some_iff prefix_def split: option.splits)

lemma trailing_space_le: "trailing_space s \<le> length s"
  by (auto simp: trailing_space_def find_Some_iff suffix_def split: option.splits)

function TrimLeft :: "string \<Rightarrow> string" where
  "TrimLeft s = (if leading_space s = 0 then s else TrimLeft (drop (leading_space s) s))"
  by pat_completeness auto
termination
proof (relation "measure length")
  show "wf (measure length)" by simp
next
  fix s :: string
  assume "leading_space s \<noteq> 0"
  moreover have "leading_space s \<le> length s" by (rule leading_space_le)
  ultimately show "(drop (leading_space s) s, s) \<in> measure length" by simp
qed

function TrimRight :: "string \<Rightarrow> string" where
  "TrimRight s =
     (if trailing_space s = 0 then s else TrimRight (take (length s - trailing_space s) s))"
  by pat_completeness auto
termination
proof (relation "measure length")
  show "wf (measure length)" by simp
next
  fix s :: string
  assume "trailing_space s \<noteq> 0"
  moreover have "trailing_space s \<le> length s" by (rule trailing_space_le)
  ultimately show "(take (length s - trailing_space s) s, s) \<in> measure length" by simp
qed

declare TrimLeft.simps [simp del] TrimRight.simps [simp del]

definition strings_TrimSpace :: "string \<Rightarrow> string" where
  "strings_TrimSpace s = TrimRight (TrimLeft s)"

text \<open>
  \<open>filepath.Join(dir, name)\<close> for a directory path that is clean already (the temp area
  returns such paths) and a single path element; the cleaning that Join also does is
  not modelled.
\<close>

definition filepath_Join :: "string \<Rightarrow> string \<Rightarrow> string" where
  "filepath_Join dir name = (if dir = [] then name else dir @ ''/'' @ name)"

subsection \<open>Configuration, results and the outside world\<close>

text \<open>
  \<open>ctlconf.DirectoryContentsGit\<close>, of which the fetcher reads these fields;
  \<open>SecretRef\<close> is a pointer to a struct with the one field \<open>Name\<close>.
\<close>

record DirectoryContentsGit =
  URL :: string
  Ref :: string
  SecretRef :: "string option"
  LFSSkipSmudge :: bool

text \<open>\<open>GitInfo\<close>; the nil slice and the empty slice of \<open>Tags\<close> are both \<open>[]\<close>.\<close>

record GitInfo =
  SHA :: string
  Tags :: "string list"
  CommitTitle :: string

definition GitInfo_zero :: GitInfo where
  "GitInfo_zero = \<lparr>SHA = [], Tags = [], CommitTitle = []\<rparr>"

record gitAuthOpts =
  PrivateKey :: "string option"
  KnownHosts :: "string option"
  Username :: "string option"
  Password :: "string option"

definition gitAuthOpts_zero :: gitAuthOpts where
  "gitAuthOpts_zero = \<lparr>PrivateKey = None, KnownHosts = None, Username = None, Password = None\<rparr>"

text \<open>What \<open>cmd.Run()\<close> of os/exec gave: its error (nil when the process exited with
  status 0) and what the process wrote to its standard output and standard error.\<close>

datatype proc = Proc (run_err: "string option") (stdout: string) (stderr: string)

text \<open>
  The calls with an effect, each with its arguments and its result:
  \<open>tempArea.NewTempDir(label)\<close>, \<open>ioutil.WriteFile(path, data, perm)\<close>,
  \<open>os.RemoveAll(path)\<close> (the source drops its result), \<open>infoLog.Write(line)\<close>, and
  the run of \<open>git\<close> with arguments, environment (\<open>None\<close> for a nil \<open>cmd.Env\<close>, which
  makes the process inherit the environment of the engine) and working directory.
\<close>

datatype event =
    NewTempDir string "string + string"
  | WriteFile string string nat "string option"
  | RemoveAll string
  | InfoLog string
  | Exec "string list" "string list option" string proc

type_synonym trace = "event list"

text \<open>
  The outside world. \<open>url_creds u user pw\<close> stands for package net/url:
  \<open>url.Parse(u)\<close>, then \<open>User\<close> set to \<open>url.UserPassword(user, pw)\<close> and
  \<open>Path\<close> to the empty string, then \<open>String()\<close>; \<open>Inl\<close> is the error of Parse.
  The four names of secret fields are constants of package config, which this
  repository's sources do not include; they are parameters here.
\<close>

record sys =
  os_Environ :: "string list"
  GetSecret :: "string \<Rightarrow> string + (string \<times> string) list"
  temp_NewTempDir :: "trace \<Rightarrow> string \<Rightarrow> string + string"
  ioutil_WriteFile :: "trace \<Rightarrow> string \<Rightarrow> string \<Rightarrow> nat \<Rightarrow> string option"
  exec_Run :: "trace \<Rightarrow> string list \<Rightarrow> string list option \<Rightarrow> string \<Rightarrow> proc"
  url_creds :: "string \<Rightarrow> string \<Rightarrow> string \<Rightarrow> string + string"
  SecretK8sCoreV1SSHAuthPrivateKey :: string
  SecretSSHAuthKnownHosts :: string
  SecretK8sCorev1BasicAuthUsernameKey :: string
  SecretK8sCorev1BasicAuthPasswordKey :: string

text \<open>The file mode 0600 (octal).\<close>

definition perm_0600 :: nat where
  "perm_0600 = 6 * 64"

text \<open>The events a computation added to the trace it started from.\<close>

definition emitted :: "trace \<Rightarrow> trace \<Rightarrow> trace" where
  "emitted tr tr' = drop (length tr) tr'"

text \<open>The git subprocesses of a trace, in the order in which they were run: the
  arguments and the working directory of each.\<close>

fun execs :: "trace \<Rightarrow> (string list \<times> string) list" where
  "execs [] = []"
| "execs (Exec args env dir p # evs) = (args, dir) # execs evs"
| "execs (ev # evs) = execs evs"

text \<open>The git subprocesses of a trace that failed, in the order in which they were
  run.\<close>

fun failed_execs :: "trace \<Rightarrow> (string list \<times> string) list" where
  "failed_execs [] = []"
| "failed_execs (Exec args env dir p # evs) =
     (if run_err p = None then failed_execs evs else (args, dir) # failed_execs evs)"
| "failed_execs (ev # evs) = failed_execs evs"

text \<open>The two events of one call of \<open>Git.run\<close>.\<close>

definition run_events :: "string list \<Rightarrow> string list option \<Rightarrow> string \<Rightarrow> proc \<Rightarrow> trace" where
  "run_events args env dstPath p =
     [InfoLog (''--> git '' @ strings_Join args '' '' @ [nl]), Exec args env dstPath p]"

text \<open>
  The value of a variable in the environment of a subprocess. os/exec removes
  duplicates from \<open>cmd.Env\<close> in favour of later entries, so the last assignment of a
  variable is the one the process sees.
\<close>

definition env_lookup :: "string list \<Rightarrow> string \<Rightarrow> string option" where
  "env_lookup env key =
     map_option (drop (length key + 1)) (find (\<lambda>kv. prefix (key @ ''='') kv) (rev env))"

text \<open>An event of \<open>Git.run\<close> with the given environment and directory.\<close>

definition run_event :: "string list option \<Rightarrow> string \<Rightarrow> event \<Rightarrow> bool" where
  "run_event env dstPath ev =
     (case ev of InfoLog line \<Rightarrow> True
               | Exec args env' dir p \<Rightarrow> env' = env \<and> dir = dstPath
               | _ \<Rightarrow> False)"

text \<open>A write, with mode 0600, of one of the three credential files of the auth
  directory.\<close>

definition cred_write :: "string \<Rightarrow> event \<Rightarrow> bool" where
  "cred_write authDir ev =
     (case ev of
        WriteFile path data perm r \<Rightarrow>
          perm = perm_0600 \<and>
          (path = filepath_Join authDir ''private-key'' \<or>
           path = filepath_Join authDir ''known-hosts'' \<or>
           path = filepath_Join authDir ''.git-credentials'')
      | _ \<Rightarrow> False)"

subsection \<open>Git.run (lines 190 to 207)\<close>

text \<open>
  The process writes through \<open>io.MultiWriter\<close> to the info log and to a buffer; the
  buffers hold what the process wrote. The copy to the info log is part of the
  \<open>Exec\<close> event.
\<close>

definition run_error :: "string list \<Rightarrow> string \<Rightarrow> string \<Rightarrow> string" where
  "run_error args err errout =
     ''Git '' @ fmt_strings args @ '': '' @ err @ '' (stderr: '' @ errout @ '')''"

definition run ::
  "sys \<Rightarrow> string list \<Rightarrow> string list option \<Rightarrow> string \<Rightarrow> trace
     \<Rightarrow> (string + string \<times> string) \<times> trace" where
  "run sys args env dstPath tr =
     (let tr1 = tr @ [InfoLog (''--> git '' @ strings_Join args '' '' @ [nl])];
          p = exec_Run sys tr1 args env dstPath;
          tr2 = tr1 @ [Exec args env dstPath p]
      in case run_err p of
           Some err \<Rightarrow> (Inl (run_error args err (stderr p)), tr2)
         | None \<Rightarrow> (Inr (stdout p, stderr p), tr2))"

subsection \<open>Git.getAuthOpts (lines 220 to 250)\<close>

text \<open>The loop over \<open>secret.Data\<close>, a Go map: the list is the map's entries in the order
  in which this iteration visits them.\<close>

fun getAuthOpts_loop ::
  "sys \<Rightarrow> string \<Rightarrow> (string \<times> string) list \<Rightarrow> gitAuthOpts \<Rightarrow> string + gitAuthOpts" where
  "getAuthOpts_loop sys secretName [] opts = Inr opts"
| "getAuthOpts_loop sys secretName ((name, val) # rest) opts =
     (if name = SecretK8sCoreV1SSHAuthPrivateKey sys then
        getAuthOpts_loop sys secretName rest (opts\<lparr>PrivateKey := Some val\<rparr>)
      else if name = SecretSSHAuthKnownHosts sys then
        getAuthOpts_loop sys secretName rest (opts\<lparr>KnownHosts := Some val\<rparr>)
      else if name = SecretK8sCorev1BasicAuthUsernameKey sys then
        getAuthOpts_loop sys secretName rest (opts\<lparr>Username := Some val\<rparr>)
      else if name = SecretK8sCorev1BasicAuthPasswordKey sys then
        getAuthOpts_loop sys secretName rest (opts\<lparr>Password := Some val\<rparr>)
      else
        Inl (''Unknown secret field '' @ [quote] @ name @ [quote] @ '' in secret '' @
             [quote] @ secretName @ [quote]))"

definition getAuthOpts :: "sys \<Rightarrow> DirectoryContentsGit \<Rightarrow> string + gitAuthOpts" where
  "getAuthOpts sys opts =
     (case SecretRef opts of
        None \<Rightarrow> Inr gitAuthOpts_zero
      | Some secretName \<Rightarrow>
          (case GetSecret sys secretName of
             Inl err \<Rightarrow> Inl err
           | Inr data \<Rightarrow> getAuthOpts_loop sys secretName data gitAuthOpts_zero))"

definition IsPresent :: "gitAuthOpts \<Rightarrow> bool" where
  "IsPresent o' =
     (PrivateKey o' \<noteq> None \<or> KnownHosts o' \<noteq> None \<or> Username o' \<noteq> None \<or> Password o' \<noteq> None)"

subsection \<open>Git.fetch (lines 92 to 188)\<close>

text \<open>Lines 108 to 119: the ssh command starts with its fixed options; a private key
  is written to the auth directory and named with \<open>-i\<close>.\<close>

definition sshCmd_base :: "string list" where
  "sshCmd_base =
     [''ssh'', ''-o'', ''ServerAliveInterval=30'', ''-o'', ''ForwardAgent=no'', ''-F'', ''/dev/null'']"

definition fetch_private_key ::
  "sys \<Rightarrow> gitAuthOpts \<Rightarrow> string \<Rightarrow> string list \<Rightarrow> trace \<Rightarrow> (string + string list) \<times> trace" where
  "fetch_private_key sys authOpts authDir sshCmd tr =
     (case PrivateKey authOpts of
        None \<Rightarrow> (Inr sshCmd, tr)
      | Some key \<Rightarrow>
          (let path = filepath_Join authDir ''private-key'';
               r = ioutil_WriteFile sys tr path key perm_0600;
               tr1 = tr @ [WriteFile path key perm_0600 r]
           in case r of
                Some err \<Rightarrow> (Inl (''Writing private key: '' @ err), tr1)
              | None \<Rightarrow> (Inr (sshCmd @ [''-i'', path, ''-o'', ''IdentitiesOnly=yes'']), tr1)))"

text \<open>Lines 121 to 132: host key checking.\<close>

definition fetch_known_hosts ::
  "sys \<Rightarrow> gitAuthOpts \<Rightarrow> string \<Rightarrow> string list \<Rightarrow> trace \<Rightarrow> (string + string list) \<times> trace" where
  "fetch_known_hosts sys authOpts authDir sshCmd tr =
     (case KnownHosts authOpts of
        Some hosts \<Rightarrow>
          (let path = filepath_Join authDir ''known-hosts'';
               r = ioutil_WriteFile sys tr path hosts perm_0600;
               tr1 = tr @ [WriteFile path hosts perm_0600 r]
           in case r of
                Some err \<Rightarrow> (Inl (''Writing known hosts: '' @ err), tr1)
              | None \<Rightarrow>
                  (Inr (sshCmd @ [''-o'', ''StrictHostKeyChecking=yes'',
                                  ''-o'', ''UserKnownHostsFile='' @ path]), tr1))
      | None \<Rightarrow> (Inr (sshCmd @ [''-o'', ''StrictHostKeyChecking=no'']), tr))"

text \<open>Lines 107 to 135: the ssh command, when there are auth options; the result is
  the ssh command that was built, if one was.\<close>

definition fetch_sshCmd ::
  "sys \<Rightarrow> gitAuthOpts \<Rightarrow> string \<Rightarrow> trace \<Rightarrow> (string + string list option) \<times> trace" where
  "fetch_sshCmd sys authOpts authDir tr =
     (if IsPresent authOpts then
        (case fetch_private_key sys authOpts authDir sshCmd_base tr of
           (Inl err, tr1) \<Rightarrow> (Inl err, tr1)
         | (Inr sshCmd1, tr1) \<Rightarrow>
             (case fetch_known_hosts sys authOpts authDir sshCmd1 tr1 of
                (Inl err, tr2) \<Rightarrow> (Inl err, tr2)
              | (Inr sshCmd2, tr2) \<Rightarrow> (Inr (Some sshCmd2), tr2)))
      else (Inr None, tr))"

text \<open>Lines 105 to 139: the environment of the subprocesses.\<close>

definition fetch_env :: "sys \<Rightarrow> DirectoryContentsGit \<Rightarrow> string list option \<Rightarrow> string list" where
  "fetch_env sys opts sshCmd =
     (let env = os_Environ sys;
          env1 = (case sshCmd of
                    Some c \<Rightarrow> env @ [''GIT_SSH_COMMAND='' @ strings_Join c '' '']
                  | None \<Rightarrow> env)
      in if LFSSkipSmudge opts then env1 @ [''GIT_LFS_SKIP_SMUDGE=1''] else env1)"

text \<open>Lines 144 to 161: the credential store file for a username and a password.\<close>

definition https_only_error :: string where
  "https_only_error = ''Username/password authentication is only supported for https remotes''"

definition fetch_creds ::
  "sys \<Rightarrow> gitAuthOpts \<Rightarrow> string \<Rightarrow> string \<Rightarrow> trace \<Rightarrow> string option \<times> trace" where
  "fetch_creds sys authOpts gitUrl gitCredsPath tr =
     (case (Username authOpts, Password authOpts) of
        (Some username, Some password) \<Rightarrow>
          (if \<not> strings_HasPrefix gitUrl ''https://'' then (Some https_only_error, tr)
           else
             (case url_creds sys gitUrl username password of
                Inl err \<Rightarrow> (Some (''Parsing git remote url: '' @ err), tr)
              | Inr gitCredsUrl \<Rightarrow>
                  (let data = gitCredsUrl @ [nl];
                       r = ioutil_WriteFile sys tr gitCredsPath data perm_0600;
                       tr1 = tr @ [WriteFile gitCredsPath data perm_0600 r]
                   in case r of
                        Some err \<Rightarrow> (Some (''Writing '' @ gitCredsPath @ '': '' @ err), tr1)
                      | None \<Rightarrow> (None, tr1))))
      | _ \<Rightarrow> (None, tr))"

text \<open>Lines 163 to 178: the argument lists of the git subprocesses.\<close>

definition fetch_argss :: "DirectoryContentsGit \<Rightarrow> string \<Rightarrow> bool \<Rightarrow> string list list" where
  "fetch_argss opts gitCredsPath skeleton =
     [[''init''],
      [''config'', ''credential.helper'', ''store --file '' @ gitCredsPath],
      [''remote'', ''add'', ''origin'', URL opts],
      [''fetch'', ''origin'']]
     @ (if \<not> skeleton then
          [[''-c'', ''advice.detachedHead=false'', ''checkout'', Ref opts],
           [''submodule'', ''update'', ''--init'', ''--recursive'']]
        else [])"

text \<open>Lines 180 to 185: the loop stops at the first subprocess that fails.\<close>

fun fetch_runs ::
  "sys \<Rightarrow> string list list \<Rightarrow> string list \<Rightarrow> string \<Rightarrow> trace \<Rightarrow> string option \<times> trace" where
  "fetch_runs sys [] env dstPath tr = (None, tr)"
| "fetch_runs sys (args # argss) env dstPath tr =
     (case run sys args (Some env) dstPath tr of
        (Inl err, tr1) \<Rightarrow> (Some err, tr1)
      | (Inr out, tr1) \<Rightarrow> fetch_runs sys argss env dstPath tr1)"

text \<open>Lines 105 to 187, all that runs after \<open>defer os.RemoveAll(authDir)\<close>.\<close>

definition fetch_body ::
  "sys \<Rightarrow> DirectoryContentsGit \<Rightarrow> gitAuthOpts \<Rightarrow> string \<Rightarrow> string \<Rightarrow> bool \<Rightarrow> trace
     \<Rightarrow> string option \<times> trace" where
  "fetch_body sys opts authOpts authDir dstPath skeleton tr =
     (case fetch_sshCmd sys authOpts authDir tr of
        (Inl err, tr1) \<Rightarrow> (Some err, tr1)
      | (Inr sshCmd, tr1) \<Rightarrow>
          (let env = fetch_env sys opts sshCmd;
               gitUrl = URL opts;
               gitCredsPath = filepath_Join authDir ''.git-credentials''
           in case fetch_creds sys authOpts gitUrl gitCredsPath tr1 of
                (Some err, tr2) \<Rightarrow> (Some err, tr2)
              | (None, tr2) \<Rightarrow>
                  fetch_runs sys (fetch_argss opts gitCredsPath skeleton) env dstPath tr2))"

text \<open>The deferred \<open>os.RemoveAll(authDir)\<close> runs when the body returns, whatever it
  returns.\<close>

definition fetch ::
  "sys \<Rightarrow> DirectoryContentsGit \<Rightarrow> string \<Rightarrow> bool \<Rightarrow> trace \<Rightarrow> string option \<times> trace" where
  "fetch sys opts dstPath skeleton tr =
     (case getAuthOpts sys opts of
        Inl err \<Rightarrow> (Some err, tr)
      | Inr authOpts \<Rightarrow>
          (let r = temp_NewTempDir sys tr ''git-auth'';
               tr1 = tr @ [NewTempDir ''git-auth'' r]
           in case r of
                Inl err \<Rightarrow> (Some err, tr1)
              | Inr authDir \<Rightarrow>
                  (case fetch_body sys opts authOpts authDir dstPath skeleton tr1 of
                     (res, tr2) \<Rightarrow> (res, tr2 @ [RemoveAll authDir]))))"

subsection \<open>Git.Retrieve (lines 36 to 71)\<close>

definition Retrieve ::
  "sys \<Rightarrow> DirectoryContentsGit \<Rightarrow> string \<Rightarrow> trace \<Rightarrow> (string + GitInfo) \<times> trace" where
  "Retrieve sys opts dstPath tr =
     (if length (URL opts) = 0 then (Inl ''Expected non-empty URL'', tr)
      else if length (Ref opts) = 0 then
        (Inl ''Expected non-empty ref (could be branch, tag, commit)'', tr)
      else
        (case fetch sys opts dstPath False tr of
           (Some err, tr1) \<Rightarrow> (Inl (''Cloning: '' @ err), tr1)
         | (None, tr1) \<Rightarrow>
             (case run sys [''rev-parse'', ''HEAD''] None dstPath tr1 of
                (Inl err, tr2) \<Rightarrow> (Inl err, tr2)
              | (Inr (out, errout), tr2) \<Rightarrow>
                  (let info = GitInfo_zero\<lparr>SHA := strings_TrimSpace out\<rparr> in
                   case run sys [''describe'', ''--tags'', SHA info] None dstPath tr2 of
                     (res3, tr3) \<Rightarrow>
                       (let info1 =
                              (case res3 of
                                 Inr (out3, errout3) \<Rightarrow>
                                   info\<lparr>Tags := strings_Split (strings_TrimSpace out3) nl\<rparr>
                               | Inl err3 \<Rightarrow> info)
                        in case run sys [''log'', ''-n'', ''1'', ''--pretty=%B'', SHA info1]
                                    None dstPath tr3 of
                             (Inl err, tr4) \<Rightarrow> (Inl err, tr4)
                           | (Inr (out4, errout4), tr4) \<Rightarrow>
                               (Inr (info1\<lparr>CommitTitle := strings_TrimSpace out4\<rparr>), tr4))))))"

subsection \<open>Example worlds\<close>

text \<open>
  A world in which every call succeeds but \<open>git describe\<close>, which finds no tag. It has
  three secrets: an ssh key with known hosts, a username with a password, and a
  username alone. The ambient environment sets \<open>GIT_SSH_COMMAND\<close>.
\<close>

definition demo_sys :: sys where
  "demo_sys =
     \<lparr>os_Environ = [''PATH=/usr/bin'', ''GIT_SSH_COMMAND=ssh -v''],
      GetSecret = (\<lambda>name.
        if name = ''deploy-key'' then
          Inr [(''ssh-privatekey'', ''KEY''), (''ssh-knownhosts'', ''HOSTS'')]
        else if name = ''basic'' then Inr [(''username'', ''u''), (''password'', ''p'')]
        else if name = ''user-only'' then Inr [(''username'', ''u'')]
        else Inl ''secret not found''),
      temp_NewTempDir = (\<lambda>tr label. Inr (''/tmp/'' @ label)),
      ioutil_WriteFile = (\<lambda>tr path data perm. None),
      exec_Run = (\<lambda>tr args env dir.
        if args = [''rev-parse'', ''HEAD''] then Proc None (''abc123'' @ [nl]) []
        else if take 1 args = [''describe''] then
          Proc (Some ''exit status 128'') [] ''fatal: No names found''
        else if take 1 args = [''log''] then Proc None (''Initial commit'' @ [nl, nl]) []
        else Proc None [] []),
      url_creds = (\<lambda>u user pw. Inr (''https://'' @ user @ '':'' @ pw @ ''@example.com'')),
      SecretK8sCoreV1SSHAuthPrivateKey = ''ssh-privatekey'',
      SecretSSHAuthKnownHosts = ''ssh-knownhosts'',
      SecretK8sCorev1BasicAuthUsernameKey = ''username'',
      SecretK8sCorev1BasicAuthPasswordKey = ''password''\<rparr>"

definition demo_opts :: DirectoryContentsGit where
  "demo_opts = \<lparr>URL = ''https://example.com/repo.git'', Ref = ''main'',
                 SecretRef = None, LFSSkipSmudge = False\<rparr>"

text \<open>A git repository reached over ssh, with the secret of the ssh key; and over
  https or ssh with the secret of the username and password.\<close>

definition demo_key_opts :: DirectoryContentsGit where
  "demo_key_opts = \<lparr>URL = ''git@example.com:repo.git'', Ref = ''main'',
                     SecretRef = Some ''deploy-key'', LFSSkipSmudge = False\<rparr>"

definition demo_basic_opts :: "string \<Rightarrow> DirectoryContentsGit" where
  "demo_basic_opts url = \<lparr>URL = url, Ref = ''main'',
                           SecretRef = Some ''basic'', LFSSkipSmudge = False\<rparr>"

text \<open>The same world, but \<open>git fetch origin\<close> fails; and the same world, but the temp
  area cannot create a directory.\<close>

definition demo_sys_fetch_fails :: sys where
  "demo_sys_fetch_fails =
     demo_sys\<lparr>exec_Run := (\<lambda>tr args env dir.
        if args = [''fetch'', ''origin''] then
          Proc (Some ''exit status 128'') [] ''fatal: unable to access''
        else Proc None [] [])\<rparr>"

definition demo_sys_no_temp :: sys where
  "demo_sys_no_temp =
     demo_sys\<lparr>temp_NewTempDir := (\<lambda>tr label. Inl ''mkdir /tmp/git-auth: permission denied'')\<rparr>"

text \<open>
  A world whose checked out commit has the tag \<open>v1.2.0\<close> and a message with a subject
  and a body: git prints the whole message for the format \<open>%B\<close> and the subject for
  the format \<open>%s\<close>. And a world in which the git subprocess with the given word among
  its arguments fails.
\<close>

definition demo_sys_tagged :: sys where
  "demo_sys_tagged =
     demo_sys\<lparr>exec_Run := (\<lambda>tr args env dir.
        if args = [''rev-parse'', ''HEAD''] then Proc None (''abc123'' @ [nl]) []
        else if take 1 args = [''describe''] then Proc None (''v1.2.0'' @ [nl]) []
        else if args = [''log'', ''-n'', ''1'', ''--pretty=%B'', ''abc123''] then
          Proc None (''Fix parser'' @ [nl, nl] @ ''Long explanation'' @ [nl]) []
        else if args = [''log'', ''-n'', ''1'', ''--pretty=%s'', ''abc123''] then
          Proc None (''Fix parser'' @ [nl]) []
        else Proc None [] [])\<rparr>"

definition demo_sys_failing :: "string \<Rightarrow> sys" where
  "demo_sys_failing word =
     demo_sys\<lparr>exec_Run := (\<lambda>tr args env dir.
        if word \<in> set args then Proc (Some ''exit status 1'') [] (''fatal: '' @ word)
        else exec_Run demo_sys tr args env dir)\<rparr>"

section \<open>The shape of the traces\<close>

lemma emitted_append [simp]: "emitted tr (tr @ evs) = evs"
  by (simp add: emitted_def)

lemma emitted_self [simp]: "emitted tr tr = []"
  by (simp add: emitted_def)

lemma execs_append [simp]: "execs (xs @ ys) = execs xs @ execs ys"
  by (induction xs rule: execs.induct) auto

lemma execs_cred_writes: "\<forall>ev\<in>set ws. cred_write d ev \<Longrightarrow> execs ws = []"
  by (induction ws rule: execs.induct) (auto simp: cred_write_def)

lemma run_result:
  assumes "run sys args env dst tr = (r, tr')"
  shows "\<exists>p. tr' = tr @ [InfoLog (''--> git '' @ strings_Join args '' '' @ [nl]), Exec args env dst p] \<and>
       r = (case run_err p of Some err \<Rightarrow> Inl (run_error args err (stderr p))
            | None \<Rightarrow> Inr (stdout p, stderr p))"
  using assms by (auto simp: run_def Let_def split: option.splits)

lemma fetch_runs_shape:
  "fetch_runs sys argss env dst tr = (res, tr') \<Longrightarrow>
   \<exists>evs n. tr' = tr @ evs \<and> n \<le> length argss \<and>
     execs evs = map (\<lambda>a. (a, dst)) (take n argss) \<and>
     (res = None \<longrightarrow> n = length argss) \<and>
     (argss \<noteq> [] \<longrightarrow> 0 < n) \<and>
     (\<forall>ev\<in>set evs. run_event (Some env) dst ev) \<and>
     (\<forall>a e d p err. Exec a e d p \<in> set evs \<and> run_err p = Some err \<longrightarrow>
        res = Some (run_error a err (stderr p)))"
proof (induction argss arbitrary: tr)
  case Nil
  then show ?case by auto
next
  case (Cons args argss)
  obtain r tr1 where r: "run sys args (Some env) dst tr = (r, tr1)"
    by (cases "run sys args (Some env) dst tr")
  from run_result [OF r] obtain p where
    p: "tr1 = tr @ [InfoLog (''--> git '' @ strings_Join args '' '' @ [nl]), Exec args (Some env) dst p]"
       "r = (case run_err p of Some err \<Rightarrow> Inl (run_error args err (stderr p))
            | None \<Rightarrow> Inr (stdout p, stderr p))"
    by blast
  show ?case
  proof (cases "run_err p")
    case (Some err)
    with p r Cons.prems have "res = Some (run_error args err (stderr p))" "tr' = tr1"
      by auto
    with p Some show ?thesis
      by (intro exI [of _ "[InfoLog (''--> git '' @ strings_Join args '' '' @ [nl]), Exec args (Some env) dst p]"]
           exI [of _ "1"]) (auto simp: run_event_def)
  next
    case None
    with p r Cons.prems have "fetch_runs sys argss env dst tr1 = (res, tr')"
      by auto
    from Cons.IH [OF this] obtain evs n where
      IH: "tr' = tr1 @ evs" "n \<le> length argss"
          "execs evs = map (\<lambda>a. (a, dst)) (take n argss)"
          "res = None \<longrightarrow> n = length argss"
          "\<forall>ev\<in>set evs. run_event (Some env) dst ev"
          "\<forall>a e d p err. Exec a e d p \<in> set evs \<and> run_err p = Some err \<longrightarrow>
             res = Some (run_error a err (stderr p))"
      by blast
    with p None show ?thesis
      by (intro exI [of _ "[InfoLog (''--> git '' @ strings_Join args '' '' @ [nl]), Exec args (Some env) dst p] @ evs"]
           exI [of _ "Suc n"]) (auto simp: run_event_def)
  qed
qed

lemma fetch_private_key_shape:
  assumes "fetch_private_key sys a d c tr = (r, tr')"
  shows "\<exists>ws. tr' = tr @ ws \<and> (\<forall>ev\<in>set ws. cred_write d ev) \<and>
           (case r of
              Inl e \<Rightarrow> \<exists>path data err. ws = [WriteFile path data perm_0600 (Some err)] \<and>
                         e = ''Writing private key: '' @ err
            | Inr c' \<Rightarrow> c' = c @ (case PrivateKey a of None \<Rightarrow> []
                         | Some key \<Rightarrow> [''-i'', filepath_Join d ''private-key'', ''-o'', ''IdentitiesOnly=yes'']))"
  using assms
  by (auto simp: fetch_private_key_def Let_def cred_write_def split: option.splits)

lemma fetch_known_hosts_shape:
  assumes "fetch_known_hosts sys a d c tr = (r, tr')"
  shows "\<exists>ws. tr' = tr @ ws \<and> (\<forall>ev\<in>set ws. cred_write d ev) \<and>
           (case r of
              Inl e \<Rightarrow> \<exists>path data err. ws = [WriteFile path data perm_0600 (Some err)] \<and>
                         e = ''Writing known hosts: '' @ err
            | Inr c' \<Rightarrow> c' = c @ (case KnownHosts a of
                           None \<Rightarrow> [''-o'', ''StrictHostKeyChecking=no'']
                         | Some hosts \<Rightarrow> [''-o'', ''StrictHostKeyChecking=yes'', ''-o'',
                              ''UserKnownHostsFile='' @ filepath_Join d ''known-hosts'']))"
  using assms
  by (auto simp: fetch_known_hosts_def Let_def cred_write_def split: option.splits)

lemma fetch_sshCmd_shape:
  assumes "fetch_sshCmd sys a d tr = (r, tr')"
  shows "\<exists>ws. tr' = tr @ ws \<and> (\<forall>ev\<in>set ws. cred_write d ev) \<and>
           (case r of
              Inl e \<Rightarrow> \<exists>path data err. WriteFile path data perm_0600 (Some err) \<in> set ws \<and>
                         (e = ''Writing private key: '' @ err \<or> e = ''Writing known hosts: '' @ err)
            | Inr None \<Rightarrow> \<not> IsPresent a \<and> ws = []
            | Inr (Some c) \<Rightarrow> IsPresent a \<and>
                c = sshCmd_base
                  @ (case PrivateKey a of None \<Rightarrow> []
                     | Some key \<Rightarrow> [''-i'', filepath_Join d ''private-key'', ''-o'', ''IdentitiesOnly=yes''])
                  @ (case KnownHosts a of
                       None \<Rightarrow> [''-o'', ''StrictHostKeyChecking=no'']
                     | Some hosts \<Rightarrow> [''-o'', ''StrictHostKeyChecking=yes'', ''-o'',
                          ''UserKnownHostsFile='' @ filepath_Join d ''known-hosts'']))"
proof (cases "IsPresent a")
  case False
  with assms show ?thesis by (auto simp: fetch_sshCmd_def)
next
  case True
  obtain r1 tr1 where k: "fetch_private_key sys a d sshCmd_base tr = (r1, tr1)"
    by (cases "fetch_private_key sys a d sshCmd_base tr")
  from fetch_private_key_shape [OF k] obtain ws1 where
    ws1: "tr1 = tr @ ws1" "\<forall>ev\<in>set ws1. cred_write d ev"
      "case r1 of
              Inl e \<Rightarrow> \<exists>path data err. ws1 = [WriteFile path data perm_0600 (Some err)] \<and>
                         e = ''Writing private key: '' @ err
            | Inr c' \<Rightarrow> c' = sshCmd_base @ (case PrivateKey a of None \<Rightarrow> []
                         | Some key \<Rightarrow> [''-i'', filepath_Join d ''private-key'', ''-o'', ''IdentitiesOnly=yes''])"
    by blast
  show ?thesis
  proof (cases r1)
    case (Inl e)
    with assms True k ws1 show ?thesis
      by (auto simp: fetch_sshCmd_def)
  next
    case (Inr c1)
    obtain r2 tr2 where h: "fetch_known_hosts sys a d c1 tr1 = (r2, tr2)"
      by (cases "fetch_known_hosts sys a d c1 tr1")
    from fetch_known_hosts_shape [OF h] obtain ws2 where
      ws2: "tr2 = tr1 @ ws2" "\<forall>ev\<in>set ws2. cred_write d ev"
        "case r2 of
              Inl e \<Rightarrow> \<exists>path data err. ws2 = [WriteFile path data perm_0600 (Some err)] \<and>
                         e = ''Writing known hosts: '' @ err
            | Inr c' \<Rightarrow> c' = c1 @ (case KnownHosts a of
                           None \<Rightarrow> [''-o'', ''StrictHostKeyChecking=no'']
                         | Some hosts \<Rightarrow> [''-o'', ''StrictHostKeyChecking=yes'', ''-o'',
                              ''UserKnownHostsFile='' @ filepath_Join d ''known-hosts''])"
      by blast
    from assms True k h Inr have res: "r = (case r2 of Inl e \<Rightarrow> Inl e | Inr c \<Rightarrow> Inr (Some c))" "tr' = tr2"
      by (auto simp: fetch_sshCmd_def split: sum.splits)
    show ?thesis
    proof (cases r2)
      case (Inl e)
      with res ws1 ws2 Inr show ?thesis
        by (intro exI [of _ "ws1 @ ws2"]) fastforce
    next
      case (Inr c2)
      with res ws1 ws2 \<open>r1 = Inr c1\<close> True show ?thesis
        by (intro exI [of _ "ws1 @ ws2"]) auto
    qed
  qed
qed

lemma fetch_creds_shape:
  assumes "fetch_creds sys a u path tr = (r, tr')"
  shows "\<exists>ws. tr' = tr @ ws \<and>
           (\<forall>ev\<in>set ws. \<exists>data res. ev = WriteFile path data perm_0600 res) \<and>
           (ws \<noteq> [] \<longrightarrow> Username a \<noteq> None \<and> Password a \<noteq> None)"
  using assms
  by (auto simp: fetch_creds_def Let_def split: option.splits if_splits sum.splits)


lemma fetch_argss_nonempty [simp]: "fetch_argss opts path sk \<noteq> []"
  by (simp add: fetch_argss_def)

lemma fetch_body_cases:
  assumes "fetch_body sys opts a d dst sk tr = (res, tr')"
  obtains
    (ssh_failed) e where
      "fetch_sshCmd sys a d tr = (Inl e, tr')" "res = Some e"
  | (creds_failed) c tr1 e where
      "fetch_sshCmd sys a d tr = (Inr c, tr1)"
      "fetch_creds sys a (URL opts) (filepath_Join d ''.git-credentials'') tr1 = (Some e, tr')"
      "res = Some e"
  | (runs) c tr1 tr2 where
      "fetch_sshCmd sys a d tr = (Inr c, tr1)"
      "fetch_creds sys a (URL opts) (filepath_Join d ''.git-credentials'') tr1 = (None, tr2)"
      "fetch_runs sys (fetch_argss opts (filepath_Join d ''.git-credentials'') sk)
         (fetch_env sys opts c) dst tr2 = (res, tr')"
  using assms
  by (auto simp: fetch_body_def Let_def split: prod.splits sum.splits option.splits)

lemma fetch_cases:
  assumes "fetch sys opts dst sk tr = (res, tr')"
  obtains
    (auth_failed) e where
      "getAuthOpts sys opts = Inl e" "res = Some e" "tr' = tr"
  | (temp_failed) a e where
      "getAuthOpts sys opts = Inr a" "temp_NewTempDir sys tr ''git-auth'' = Inl e"
      "res = Some e" "tr' = tr @ [NewTempDir ''git-auth'' (Inl e)]"
  | (body) a d tr2 where
      "getAuthOpts sys opts = Inr a" "temp_NewTempDir sys tr ''git-auth'' = Inr d"
      "fetch_body sys opts a d dst sk (tr @ [NewTempDir ''git-auth'' (Inr d)]) = (res, tr2)"
      "tr' = tr2 @ [RemoveAll d]"
  using assms
  by (auto simp: fetch_def Let_def split: prod.splits sum.splits option.splits)

text \<open>What the body of fetch adds to the trace: writes of credential files, then runs
  of git.\<close>

lemma fetch_body_shape:
  assumes "fetch_body sys opts a d dst sk tr = (res, tr')"
  shows "\<exists>ws rs c n. tr' = tr @ ws @ rs \<and>
     (\<forall>ev\<in>set ws. cred_write d ev) \<and>
     (\<forall>ev\<in>set rs. run_event (Some (fetch_env sys opts c)) dst ev) \<and>
     (rs \<noteq> [] \<longrightarrow> fst (fetch_sshCmd sys a d tr) = Inr c) \<and>
     n \<le> length (fetch_argss opts (filepath_Join d ''.git-credentials'') sk) \<and>
     execs rs = map (\<lambda>a. (a, dst)) (take n (fetch_argss opts (filepath_Join d ''.git-credentials'') sk)) \<and>
     (res = None \<longrightarrow> n = length (fetch_argss opts (filepath_Join d ''.git-credentials'') sk)) \<and>
     (rs \<noteq> [] \<longrightarrow> 0 < n) \<and>
     (\<forall>a e d p err. Exec a e d p \<in> set rs \<and> run_err p = Some err \<longrightarrow>
        res = Some (run_error a err (stderr p)))"
  using assms
proof (cases rule: fetch_body_cases)
  case (ssh_failed e)
  from fetch_sshCmd_shape [OF ssh_failed(1)] obtain ws where
    "tr' = tr @ ws" "\<forall>ev\<in>set ws. cred_write d ev" by blast
  with ssh_failed show ?thesis
    by - (rule exI [of _ ws], rule exI [of _ "[]"], rule exI [of _ None], rule exI [of _ 0], simp)
next
  case (creds_failed c tr1 e)
  from fetch_sshCmd_shape [OF creds_failed(1)] obtain ws1 where
    ws1: "tr1 = tr @ ws1" "\<forall>ev\<in>set ws1. cred_write d ev" by blast
  from fetch_creds_shape [OF creds_failed(2)] obtain ws2 where
    ws2: "tr' = tr1 @ ws2"
      "\<forall>ev\<in>set ws2. \<exists>data res. ev = WriteFile (filepath_Join d ''.git-credentials'') data perm_0600 res"
    by blast
  from ws2(2) have "\<forall>ev\<in>set ws2. cred_write d ev"
    by (auto simp: cred_write_def)
  with ws1 ws2 creds_failed show ?thesis
    by - (rule exI [of _ "ws1 @ ws2"], rule exI [of _ "[]"], rule exI [of _ None],
          rule exI [of _ 0], simp add: ball_Un)
next
  case (runs c tr1 tr2)
  from fetch_sshCmd_shape [OF runs(1)] obtain ws1 where
    ws1: "tr1 = tr @ ws1" "\<forall>ev\<in>set ws1. cred_write d ev" by blast
  from fetch_creds_shape [OF runs(2)] obtain ws2 where
    ws2: "tr2 = tr1 @ ws2"
      "\<forall>ev\<in>set ws2. \<exists>data res. ev = WriteFile (filepath_Join d ''.git-credentials'') data perm_0600 res"
    by blast
  from ws2(2) have w2: "\<forall>ev\<in>set ws2. cred_write d ev"
    by (auto simp: cred_write_def)
  from fetch_runs_shape [OF runs(3)] obtain rs n where
    rs: "tr' = tr2 @ rs"
      "n \<le> length (fetch_argss opts (filepath_Join d ''.git-credentials'') sk)"
      "execs rs = map (\<lambda>a. (a, dst)) (take n (fetch_argss opts (filepath_Join d ''.git-credentials'') sk))"
      "res = None \<longrightarrow> n = length (fetch_argss opts (filepath_Join d ''.git-credentials'') sk)"
      "fetch_argss opts (filepath_Join d ''.git-credentials'') sk \<noteq> [] \<longrightarrow> 0 < n"
      "\<forall>ev\<in>set rs. run_event (Some (fetch_env sys opts c)) dst ev"
      "\<forall>a e d p err. Exec a e d p \<in> set rs \<and> run_err p = Some err \<longrightarrow>
        res = Some (run_error a err (stderr p))"
    by blast
  with ws1 ws2 w2 runs(1) show ?thesis
    by - (rule exI [of _ "ws1 @ ws2"], rule exI [of _ rs], rule exI [of _ c],
          rule exI [of _ n], simp add: ball_Un)
qed

lemma execs_fetch:
  assumes "fetch sys opts dst sk tr = (res, tr')"
  shows "execs (emitted tr tr') = [] \<or>
    (\<exists>d n. temp_NewTempDir sys tr ''git-auth'' = Inr d \<and> 0 < n \<and>
       n \<le> length (fetch_argss opts (filepath_Join d ''.git-credentials'') sk) \<and>
       (res = None \<longrightarrow> n = length (fetch_argss opts (filepath_Join d ''.git-credentials'') sk)) \<and>
       execs (emitted tr tr') =
         map (\<lambda>a. (a, dst)) (take n (fetch_argss opts (filepath_Join d ''.git-credentials'') sk)))"
  using assms
proof (cases rule: fetch_cases)
  case (auth_failed e)
  then show ?thesis by simp
next
  case (temp_failed a e)
  then show ?thesis by simp
next
  case (body a d tr2)
  from fetch_body_shape [OF body(3)] obtain ws rs c n where
    sh: "tr2 = (tr @ [NewTempDir ''git-auth'' (Inr d)]) @ ws @ rs"
    "\<forall>ev\<in>set ws. cred_write d ev"
    "n \<le> length (fetch_argss opts (filepath_Join d ''.git-credentials'') sk)"
    "execs rs = map (\<lambda>a. (a, dst)) (take n (fetch_argss opts (filepath_Join d ''.git-credentials'') sk))"
    "res = None \<longrightarrow> n = length (fetch_argss opts (filepath_Join d ''.git-credentials'') sk)"
    "rs \<noteq> [] \<longrightarrow> 0 < n"
    by blast
  have e: "execs (emitted tr tr') = execs rs"
    using sh(1,2) body(4) by (simp add: execs_cred_writes)
  show ?thesis
  proof (cases "n = 0")
    case True
    with e sh(4) show ?thesis by simp
  next
    case False
    with e sh body(2) show ?thesis
      by - (rule disjI2, rule exI [of _ d], rule exI [of _ n], simp)
  qed
qed

lemma checkout_position:
  assumes "([''-c'', ''advice.detachedHead=false'', ''checkout'', ref], dst)
             \<in> set (map (\<lambda>a. (a, dst)) (take n (fetch_argss opts path False)))"
  shows "5 \<le> n"
proof (rule ccontr)
  assume "\<not> 5 \<le> n"
  then consider "n = 0" | "n = 1" | "n = 2" | "n = 3" | "n = 4" by linarith
  then show False
    using assms by cases (simp_all add: fetch_argss_def)
qed

lemma fetch_failed_exec:
  assumes "fetch sys opts dst sk tr = (res, tr')"
    and "Exec args env dir p \<in> set (emitted tr tr')" and "run_err p = Some err"
  shows "res = Some (run_error args err (stderr p))"
  using assms(1)
proof (cases rule: fetch_cases)
  case (auth_failed e)
  with assms(2) show ?thesis by simp
next
  case (temp_failed a e)
  with assms(2) show ?thesis by simp
next
  case (body a d tr2)
  from fetch_body_shape [OF body(3)] obtain ws rs where
    sh: "tr2 = (tr @ [NewTempDir ''git-auth'' (Inr d)]) @ ws @ rs"
    "\<forall>ev\<in>set ws. cred_write d ev"
    "\<forall>a e d p err. Exec a e d p \<in> set rs \<and> run_err p = Some err \<longrightarrow>
        res = Some (run_error a err (stderr p))"
    by blast
  from sh(2) have "Exec args env dir p \<notin> set ws"
    by (auto simp: cred_write_def)
  with assms(2) sh(1) body(4) have "Exec args env dir p \<in> set rs" by simp
  with sh(3) assms(3) show ?thesis by blast
qed

lemma fetch_extends:
  assumes "fetch sys opts dst sk tr = (res, tr')"
  shows "\<exists>evs. tr' = tr @ evs"
  using assms
proof (cases rule: fetch_cases)
  case (body a d tr2)
  from fetch_body_shape [OF body(3)] body(4) show ?thesis by auto
qed auto

lemma env_lookup_last: "env_lookup (env @ [key @ ''='' @ v]) key = Some v"
  by (simp add: env_lookup_def)

lemma env_lookup_other:
  "\<not> prefix (key @ ''='') kv \<Longrightarrow> env_lookup (env @ [kv]) key = env_lookup env key"
  by (simp add: env_lookup_def)

lemma env_lookup_fetch_env:
  "env_lookup (fetch_env sys opts (Some c)) ''GIT_SSH_COMMAND'' = Some (strings_Join c '' '')"
  "env_lookup (fetch_env sys opts None) ''GIT_SSH_COMMAND'' =
     env_lookup (os_Environ sys) ''GIT_SSH_COMMAND''"
  by (simp_all add: fetch_env_def Let_def env_lookup_def)


lemma filepath_Join_last: "name \<noteq> [] \<Longrightarrow> last (filepath_Join dir name) = last name"
  by (simp add: filepath_Join_def)



lemma key_path_not_option:
  "filepath_Join d ''private-key'' \<noteq> ''StrictHostKeyChecking=no''"
  "filepath_Join d ''private-key'' \<noteq> ''StrictHostKeyChecking=yes''"
proof -
  have "last (filepath_Join d ''private-key'') = CHR ''y''"
    by (simp add: filepath_Join_last)
  then show "filepath_Join d ''private-key'' \<noteq> ''StrictHostKeyChecking=no''"
    "filepath_Join d ''private-key'' \<noteq> ''StrictHostKeyChecking=yes''"
    by auto
qed



lemma fetch_creds_not_https:
  "Username a \<noteq> None \<Longrightarrow> Password a \<noteq> None \<Longrightarrow> \<not> strings_HasPrefix u ''https://'' \<Longrightarrow>
   fetch_creds sys a u path tr = (Some https_only_error, tr)"
  by (auto simp: fetch_creds_def split: option.splits)


lemma failed_execs_append [simp]: "failed_execs (xs @ ys) = failed_execs xs @ failed_execs ys"
  by (induction xs rule: failed_execs.induct) auto

lemma failed_execs_cred_writes: "\<forall>ev\<in>set ws. cred_write d ev \<Longrightarrow> failed_execs ws = []"
  by (induction ws rule: failed_execs.induct) (auto simp: cred_write_def)

lemma Exec_in_execs: "Exec a e d p \<in> set evs \<Longrightarrow> (a, d) \<in> set (execs evs)"
  by (induction evs rule: execs.induct) auto

lemma run_result':
  assumes "run sys args env dst tr = (r, tr')"
  shows "\<exists>p. tr' = tr @ run_events args env dst p \<and>
       r = (case run_err p of Some err \<Rightarrow> Inl (run_error args err (stderr p))
            | None \<Rightarrow> Inr (stdout p, stderr p))"
  using run_result [OF assms] by (simp add: run_events_def)

lemma fetch_runs_failed:
  "fetch_runs sys argss env dst tr = (res, tr') \<Longrightarrow>
   \<exists>evs. tr' = tr @ evs \<and>
     failed_execs evs = (if res = None then [] else [last (execs evs)]) \<and>
     (res \<noteq> None \<longrightarrow> execs evs \<noteq> [])"
proof (induction argss arbitrary: tr)
  case Nil
  then show ?case by auto
next
  case (Cons args argss)
  obtain r tr1 where r: "run sys args (Some env) dst tr = (r, tr1)"
    by (cases "run sys args (Some env) dst tr")
  from run_result' [OF r] obtain p where
    p: "tr1 = tr @ run_events args (Some env) dst p"
       "r = (case run_err p of Some err \<Rightarrow> Inl (run_error args err (stderr p))
            | None \<Rightarrow> Inr (stdout p, stderr p))"
    by blast
  show ?case
  proof (cases "run_err p")
    case (Some err)
    with p r Cons.prems have "res = Some (run_error args err (stderr p))" "tr' = tr1"
      by auto
    with p Some show ?thesis
      by - (rule exI [of _ "run_events args (Some env) dst p"], simp add: run_events_def)
  next
    case None
    with p r Cons.prems have "fetch_runs sys argss env dst tr1 = (res, tr')"
      by auto
    from Cons.IH [OF this] obtain evs where
      IH: "tr' = tr1 @ evs"
          "failed_execs evs = (if res = None then [] else [last (execs evs)])"
          "res \<noteq> None \<longrightarrow> execs evs \<noteq> []"
      by blast
    with p None show ?thesis
      by - (rule exI [of _ "run_events args (Some env) dst p @ evs"], simp add: run_events_def)
  qed
qed

lemma fetch_failed_execs:
  assumes "fetch sys opts dst sk tr = (res, tr')"
  shows "failed_execs (emitted tr tr') =
           (if res = None \<or> execs (emitted tr tr') = [] then []
            else [last (execs (emitted tr tr'))])"
  using assms
proof (cases rule: fetch_cases)
  case (auth_failed e)
  then show ?thesis by simp
next
  case (temp_failed a e)
  then show ?thesis by simp
next
  case (body a d tr2)
  let ?tr1 = "tr @ [NewTempDir ''git-auth'' (Inr d)]"
  from body(3) show ?thesis
  proof (cases rule: fetch_body_cases)
    case (ssh_failed e)
    from fetch_sshCmd_shape [OF ssh_failed(1)] obtain ws where
      "tr2 = ?tr1 @ ws" "\<forall>ev\<in>set ws. cred_write d ev" by blast
    with body(4) show ?thesis
      by (simp add: execs_cred_writes failed_execs_cred_writes)
  next
    case (creds_failed c tr1 e)
    from fetch_sshCmd_shape [OF creds_failed(1)] obtain ws1 where
      ws1: "tr1 = ?tr1 @ ws1" "\<forall>ev\<in>set ws1. cred_write d ev" by blast
    from fetch_creds_shape [OF creds_failed(2)] obtain ws2 where
      ws2: "tr2 = tr1 @ ws2"
        "\<forall>ev\<in>set ws2. \<exists>data res. ev = WriteFile (filepath_Join d ''.git-credentials'') data perm_0600 res"
      by blast
    from ws2(2) have "\<forall>ev\<in>set ws2. cred_write d ev"
      by (auto simp: cred_write_def)
    with ws1 ws2 body(4) show ?thesis
      by (simp add: execs_cred_writes failed_execs_cred_writes)
  next
    case (runs c tr1 tr3)
    from fetch_sshCmd_shape [OF runs(1)] obtain ws1 where
      ws1: "tr1 = ?tr1 @ ws1" "\<forall>ev\<in>set ws1. cred_write d ev" by blast
    from fetch_creds_shape [OF runs(2)] obtain ws2 where
      ws2: "tr3 = tr1 @ ws2"
        "\<forall>ev\<in>set ws2. \<exists>data res. ev = WriteFile (filepath_Join d ''.git-credentials'') data perm_0600 res"
      by blast
    from ws2(2) have w2: "\<forall>ev\<in>set ws2. cred_write d ev"
      by (auto simp: cred_write_def)
    from fetch_runs_failed [OF runs(3)] obtain rs where
      rs: "tr2 = tr3 @ rs"
        "failed_execs rs = (if res = None then [] else [last (execs rs)])"
        "res \<noteq> None \<longrightarrow> execs rs \<noteq> []"
      by blast
    have "emitted tr tr' = [NewTempDir ''git-auth'' (Inr d)] @ ws1 @ ws2 @ rs @ [RemoveAll d]"
      using ws1(1) ws2(1) rs(1) body(4) by (simp add: emitted_def)
    with ws1(2) w2 rs(2,3) show ?thesis
      by (simp add: execs_cred_writes failed_execs_cred_writes)
  qed
qed

lemma fetch_exec_args:
  assumes "fetch sys opts dst sk tr = (res, tr')"
    and "Exec args env dir p \<in> set (emitted tr tr')"
  shows "take 1 args \<in> {[''init''], [''config''], [''remote''], [''fetch''], [''-c''], [''submodule'']}"
proof -
  from Exec_in_execs [OF assms(2)] have m: "(args, dir) \<in> set (execs (emitted tr tr'))" .
  with execs_fetch [OF assms(1)] obtain d n where
    "execs (emitted tr tr') =
       map (\<lambda>a. (a, dst)) (take n (fetch_argss opts (filepath_Join d ''.git-credentials'') sk))"
    by auto
  with m have "args \<in> set (take n (fetch_argss opts (filepath_Join d ''.git-credentials'') sk))"
    by auto
  then have "args \<in> set (fetch_argss opts (filepath_Join d ''.git-credentials'') sk)"
    by (rule in_set_takeD)
  then show ?thesis
    by (auto simp: fetch_argss_def split: if_splits)
qed

lemma fetch_no_failed_exec:
  assumes "fetch sys opts dst sk tr = (None, tr')"
    and "Exec args env dir p \<in> set (emitted tr tr')"
  shows "run_err p = None"
proof (cases "run_err p")
  case (Some err)
  from fetch_failed_exec [OF assms Some] show ?thesis by simp
qed simp

lemma Retrieve_cases:
  assumes "Retrieve sys opts dstPath tr = (r, tr')"
  obtains
    (invalid) "URL opts = [] \<or> Ref opts = []" "tr' = tr"
  | (fetch_failed) e tr1 where
      "fetch sys opts dstPath False tr = (Some e, tr1)"
      "r = Inl (''Cloning: '' @ e)" "tr' = tr1"
  | (rev_parse_failed) tr1 p2 e where
      "fetch sys opts dstPath False tr = (None, tr1)"
      "run_err p2 = Some e"
      "tr' = tr1 @ run_events [''rev-parse'', ''HEAD''] None dstPath p2"
      "r = Inl (run_error [''rev-parse'', ''HEAD''] e (stderr p2))"
  | (log_run) tr1 p2 p3 p4 where
      "fetch sys opts dstPath False tr = (None, tr1)"
      "run_err p2 = None"
      "tr' = tr1 @ run_events [''rev-parse'', ''HEAD''] None dstPath p2
               @ run_events [''describe'', ''--tags'', strings_TrimSpace (stdout p2)] None dstPath p3
               @ run_events [''log'', ''-n'', ''1'', ''--pretty=%B'', strings_TrimSpace (stdout p2)]
                   None dstPath p4"
      "r = (case run_err p4 of
              Some e \<Rightarrow>
                Inl (run_error [''log'', ''-n'', ''1'', ''--pretty=%B'', strings_TrimSpace (stdout p2)]
                       e (stderr p4))
            | None \<Rightarrow>
                Inr \<lparr>SHA = strings_TrimSpace (stdout p2),
                     Tags = (case run_err p3 of
                               Some e3 \<Rightarrow> []
                             | None \<Rightarrow> strings_Split (strings_TrimSpace (stdout p3)) nl),
                     CommitTitle = strings_TrimSpace (stdout p4)\<rparr>)"
proof (cases "URL opts = [] \<or> Ref opts = []")
  case True
  then have "snd (Retrieve sys opts dstPath tr) = tr" by (auto simp: Retrieve_def)
  with assms True show ?thesis by (intro invalid) simp_all
next
  case valid: False
  obtain r1 tr1 where f: "fetch sys opts dstPath False tr = (r1, tr1)"
    by (cases "fetch sys opts dstPath False tr")
  show ?thesis
  proof (cases r1)
    case (Some e)
    with valid f assms show ?thesis
      by (intro fetch_failed [of e tr1]) (simp_all add: Retrieve_def)
  next
    case None
    obtain r2 tr2 where p2: "run sys [''rev-parse'', ''HEAD''] None dstPath tr1 = (r2, tr2)"
      by (cases "run sys [''rev-parse'', ''HEAD''] None dstPath tr1")
    from run_result' [OF p2] obtain p2' where
      e2: "tr2 = tr1 @ run_events [''rev-parse'', ''HEAD''] None dstPath p2'"
          "r2 = (case run_err p2' of Some err \<Rightarrow> Inl (run_error [''rev-parse'', ''HEAD''] err (stderr p2'))
                 | None \<Rightarrow> Inr (stdout p2', stderr p2'))"
      by blast
    show ?thesis
    proof (cases "run_err p2'")
      case (Some e)
      with valid f None p2 e2 assms show ?thesis
        by (intro rev_parse_failed [of tr1 p2' e]) (simp_all add: Retrieve_def)
    next
      case ok2: None
      let ?sha = "strings_TrimSpace (stdout p2')"
      obtain r3 tr3 where p3: "run sys [''describe'', ''--tags'', ?sha] None dstPath tr2 = (r3, tr3)"
        by (cases "run sys [''describe'', ''--tags'', ?sha] None dstPath tr2")
      from run_result' [OF p3] obtain p3' where
        e3: "tr3 = tr2 @ run_events [''describe'', ''--tags'', ?sha] None dstPath p3'"
            "r3 = (case run_err p3' of
                     Some err \<Rightarrow> Inl (run_error [''describe'', ''--tags'', ?sha] err (stderr p3'))
                   | None \<Rightarrow> Inr (stdout p3', stderr p3'))"
        by blast
      obtain r4 tr4 where
        p4: "run sys [''log'', ''-n'', ''1'', ''--pretty=%B'', ?sha] None dstPath tr3 = (r4, tr4)"
        by (cases "run sys [''log'', ''-n'', ''1'', ''--pretty=%B'', ?sha] None dstPath tr3")
      from run_result' [OF p4] obtain p4' where
        e4: "tr4 = tr3 @ run_events [''log'', ''-n'', ''1'', ''--pretty=%B'', ?sha] None dstPath p4'"
            "r4 = (case run_err p4' of
                     Some err \<Rightarrow> Inl (run_error [''log'', ''-n'', ''1'', ''--pretty=%B'', ?sha] err (stderr p4'))
                   | None \<Rightarrow> Inr (stdout p4', stderr p4'))"
        by blast
      have R: "Retrieve sys opts dstPath tr =
        (case run_err p4' of
              Some e \<Rightarrow>
                Inl (run_error [''log'', ''-n'', ''1'', ''--pretty=%B'', ?sha] e (stderr p4'))
            | None \<Rightarrow>
                Inr \<lparr>SHA = ?sha,
                     Tags = (case run_err p3' of
                               Some e3 \<Rightarrow> []
                             | None \<Rightarrow> strings_Split (strings_TrimSpace (stdout p3')) nl),
                     CommitTitle = strings_TrimSpace (stdout p4')\<rparr>, tr4)"
        using valid f None p2 e2(2) ok2 p3 e3(2) p4 e4(2)
        by (cases "run_err p3'"; cases "run_err p4'")
           (simp_all add: Retrieve_def GitInfo_zero_def)
      with assms e2(1) e3(1) e4(1) f None ok2 show ?thesis
        by (intro log_run [of tr1 p2' p3' p4']) simp_all
    qed
  qed
qed

lemma emitted_append2 [simp]: "emitted (tr @ xs) (tr @ xs @ ys) = ys"
  by (simp add: emitted_def)

lemma emitted_append_Cons [simp]: "emitted (tr @ [x]) (tr @ x # ys) = ys"
  by (simp add: emitted_def)

lemma fetch_sshCmd_failures:
  assumes "fetch_sshCmd sys a d tr = (r, tr')"
  shows "(\<forall>path content perm e. WriteFile path content perm (Some e) \<in> set (emitted tr tr') \<longrightarrow>
            path = filepath_Join d ''private-key'' \<and> r = Inl (''Writing private key: '' @ e) \<or>
            path = filepath_Join d ''known-hosts'' \<and> r = Inl (''Writing known hosts: '' @ e)) \<and>
         ((\<forall>path content perm e. WriteFile path content perm (Some e) \<notin> set (emitted tr tr')) \<longrightarrow>
            (\<exists>c. r = Inr c))"
  using assms
  by (auto simp: fetch_sshCmd_def fetch_private_key_def fetch_known_hosts_def Let_def
           split: if_splits option.splits sum.splits prod.splits)

lemma getAuthOpts_loop_KnownHosts:
  assumes "getAuthOpts_loop sys n content o' = Inr a"
    and "SecretK8sCoreV1SSHAuthPrivateKey sys \<noteq> SecretSSHAuthKnownHosts sys"
  shows "KnownHosts a \<noteq> None \<longleftrightarrow>
           KnownHosts o' \<noteq> None \<or> SecretSSHAuthKnownHosts sys \<in> fst ` set content"
  using assms
proof (induction content arbitrary: o')
  case Nil
  then show ?case by simp
next
  case (Cons kv content)
  obtain k v where kv: "kv = (k, v)" by (cases kv)
  from Cons.prems kv show ?case
    by (auto split: if_splits dest!: Cons.IH)
qed

lemma getAuthOpts_KnownHosts:
  assumes "getAuthOpts sys opts = Inr a"
    and "SecretK8sCoreV1SSHAuthPrivateKey sys \<noteq> SecretSSHAuthKnownHosts sys"
  shows "KnownHosts a \<noteq> None \<longleftrightarrow>
           (\<exists>name content. SecretRef opts = Some name \<and> GetSecret sys name = Inr content \<and>
              SecretSSHAuthKnownHosts sys \<in> fst ` set content)"
proof (cases "SecretRef opts")
  case None
  with assms(1) show ?thesis by (auto simp: getAuthOpts_def gitAuthOpts_zero_def)
next
  case (Some name)
  show ?thesis
  proof (cases "GetSecret sys name")
    case (Inl e)
    with Some assms(1) show ?thesis by (simp add: getAuthOpts_def)
  next
    case (Inr content)
    with Some assms(1) have "getAuthOpts_loop sys name content gitAuthOpts_zero = Inr a"
      by (simp add: getAuthOpts_def)
    from getAuthOpts_loop_KnownHosts [OF this assms(2)] Some Inr show ?thesis
      by (simp add: gitAuthOpts_zero_def)
  qed
qed

lemma fetch_env_eq:
  "fetch_env sys opts c =
     os_Environ sys @ (case c of None \<Rightarrow> [] | Some cmd \<Rightarrow> [''GIT_SSH_COMMAND='' @ strings_Join cmd '' ''])
       @ (if LFSSkipSmudge opts then [''GIT_LFS_SKIP_SMUDGE=1''] else [])"
  by (simp add: fetch_env_def Let_def split: option.splits)

section \<open>Properties\<close>

text \<open>
  C2 (amended). Retrieve succeeds exactly when the configuration is valid, the fetch
  succeeds, and \<open>git rev-parse HEAD\<close> and \<open>git log -n 1 --pretty=%B <sha>\<close> exit with
  status 0. The lock record then has the trimmed output of rev-parse as SHA; as commit
  title the trimmed output of that log command, which for the format \<open>%B\<close> is the whole
  message of the commit, its subject and its body; and as tags the lines of the trimmed
  output of \<open>git describe --tags <sha>\<close>. The result of describe does not decide whether
  Retrieve succeeds: when describe fails the tags are empty.
\<close>

theorem C2_lock_record:
  "Retrieve sys opts dstPath tr = (Inr info, tr') \<longleftrightarrow>
   URL opts \<noteq> [] \<and> Ref opts \<noteq> [] \<and>
   (\<exists>tr1 out2 err2 tr2 res3 tr3 out4 err4.
      fetch sys opts dstPath False tr = (None, tr1) \<and>
      run sys [''rev-parse'', ''HEAD''] None dstPath tr1 = (Inr (out2, err2), tr2) \<and>
      run sys [''describe'', ''--tags'', strings_TrimSpace out2] None dstPath tr2 = (res3, tr3) \<and>
      run sys [''log'', ''-n'', ''1'', ''--pretty=%B'', strings_TrimSpace out2] None dstPath tr3 =
        (Inr (out4, err4), tr') \<and>
      info = \<lparr>SHA = strings_TrimSpace out2,
               Tags = (case res3 of
                         Inl err3 \<Rightarrow> []
                       | Inr (out3, err3) \<Rightarrow> strings_Split (strings_TrimSpace out3) nl),
               CommitTitle = strings_TrimSpace out4\<rparr>)"
proof (cases "URL opts = [] \<or> Ref opts = []")
  case True
  then show ?thesis by (auto simp: Retrieve_def)
next
  case valid: False
  obtain r1 tr1 where f: "fetch sys opts dstPath False tr = (r1, tr1)"
    by (cases "fetch sys opts dstPath False tr")
  show ?thesis
  proof (cases r1)
    case (Some e)
    with valid f show ?thesis by (simp add: Retrieve_def)
  next
    case None
    obtain r2 tr2 where p: "run sys [''rev-parse'', ''HEAD''] None dstPath tr1 = (r2, tr2)"
      by (cases "run sys [''rev-parse'', ''HEAD''] None dstPath tr1")
    show ?thesis
    proof (cases r2)
      case (Inl e)
      with valid f None p show ?thesis by (simp add: Retrieve_def)
    next
      case (Inr oe)
      obtain out2 err2 where oe: "oe = (out2, err2)" by (cases oe)
      obtain res3 tr3 where
        d: "run sys [''describe'', ''--tags'', strings_TrimSpace out2] None dstPath tr2 = (res3, tr3)"
        by (cases "run sys [''describe'', ''--tags'', strings_TrimSpace out2] None dstPath tr2")
      obtain r4 tr4 where
        l: "run sys [''log'', ''-n'', ''1'', ''--pretty=%B'', strings_TrimSpace out2] None dstPath tr3 =
              (r4, tr4)"
        by (cases "run sys [''log'', ''-n'', ''1'', ''--pretty=%B'', strings_TrimSpace out2]
                     None dstPath tr3")
      show ?thesis
      proof (cases r4)
        case (Inl e)
        with valid f None p Inr oe d l show ?thesis
          by (cases res3) (simp_all add: Retrieve_def GitInfo_zero_def split: prod.splits)
      next
        case r4: (Inr oe4)
        obtain out4 err4 where oe4: "oe4 = (out4, err4)" by (cases oe4)
        have "Retrieve sys opts dstPath tr =
          (Inr \<lparr>SHA = strings_TrimSpace out2,
               Tags = (case res3 of
                         Inl err3 \<Rightarrow> []
                       | Inr (out3, err3) \<Rightarrow> strings_Split (strings_TrimSpace out3) nl),
               CommitTitle = strings_TrimSpace out4\<rparr>, tr4)"
          using valid f None p Inr oe d l r4 oe4
          by (cases res3) (simp_all add: Retrieve_def GitInfo_zero_def split: prod.splits)
        with valid f None p Inr oe d l r4 oe4 show ?thesis
          by auto
      qed
    qed
  qed
qed

text \<open>Two runs of Retrieve: one records the tag that describe prints, the other has no
  tag because describe fails.\<close>

lemma demo_Retrieve:
  "fst (Retrieve demo_sys demo_opts ''/dst'' []) =
     Inr \<lparr>SHA = ''abc123'', Tags = [], CommitTitle = ''Initial commit''\<rparr>"
  "fst (Retrieve demo_sys_tagged demo_opts ''/dst'' []) =
     Inr \<lparr>SHA = ''abc123'', Tags = [''v1.2.0''],
          CommitTitle = ''Fix parser'' @ [nl, nl] @ ''Long explanation''\<rparr>"
  by code_simp+

theorem C2_lock_record_witness:
  "(URL demo_opts \<noteq> [] \<and> Ref demo_opts \<noteq> [] \<and>
    (\<exists>tr1 out2 err2 tr2 res3 tr3 out4 err4.
      fetch demo_sys_tagged demo_opts ''/dst'' False [] = (None, tr1) \<and>
      run demo_sys_tagged [''rev-parse'', ''HEAD''] None ''/dst'' tr1 = (Inr (out2, err2), tr2) \<and>
      run demo_sys_tagged [''describe'', ''--tags'', strings_TrimSpace out2] None ''/dst'' tr2 =
        (res3, tr3) \<and>
      run demo_sys_tagged [''log'', ''-n'', ''1'', ''--pretty=%B'', strings_TrimSpace out2] None
          ''/dst'' tr3 =
        (Inr (out4, err4), snd (Retrieve demo_sys_tagged demo_opts ''/dst'' [])) \<and>
      \<lparr>SHA = ''abc123'', Tags = [''v1.2.0''],
       CommitTitle = ''Fix parser'' @ [nl, nl] @ ''Long explanation''\<rparr> =
        \<lparr>SHA = strings_TrimSpace out2,
         Tags = (case res3 of
                   Inl err3 \<Rightarrow> []
                 | Inr (out3, err3) \<Rightarrow> strings_Split (strings_TrimSpace out3) nl),
         CommitTitle = strings_TrimSpace out4\<rparr>)) \<and>
   (\<exists>tr1 out2 err2 tr2 res3 tr3 out4 err4.
      fetch demo_sys demo_opts ''/dst'' False [] = (None, tr1) \<and>
      run demo_sys [''rev-parse'', ''HEAD''] None ''/dst'' tr1 = (Inr (out2, err2), tr2) \<and>
      run demo_sys [''describe'', ''--tags'', strings_TrimSpace out2] None ''/dst'' tr2 =
        (res3, tr3) \<and>
      run demo_sys [''log'', ''-n'', ''1'', ''--pretty=%B'', strings_TrimSpace out2] None ''/dst'' tr3 =
        (Inr (out4, err4), snd (Retrieve demo_sys demo_opts ''/dst'' [])) \<and>
      \<lparr>SHA = ''abc123'', Tags = [], CommitTitle = ''Initial commit''\<rparr> =
        \<lparr>SHA = strings_TrimSpace out2,
         Tags = (case res3 of
                   Inl err3 \<Rightarrow> []
                 | Inr (out3, err3) \<Rightarrow> strings_Split (strings_TrimSpace out3) nl),
         CommitTitle = strings_TrimSpace out4\<rparr>)"
proof -
  have t: "Retrieve demo_sys_tagged demo_opts ''/dst'' [] =
          (Inr \<lparr>SHA = ''abc123'', Tags = [''v1.2.0''],
                CommitTitle = ''Fix parser'' @ [nl, nl] @ ''Long explanation''\<rparr>,
           snd (Retrieve demo_sys_tagged demo_opts ''/dst'' []))"
    using demo_Retrieve(2) by (simp add: prod_eq_iff)
  have d: "Retrieve demo_sys demo_opts ''/dst'' [] =
          (Inr \<lparr>SHA = ''abc123'', Tags = [], CommitTitle = ''Initial commit''\<rparr>,
           snd (Retrieve demo_sys demo_opts ''/dst'' []))"
    using demo_Retrieve(1) by (simp add: prod_eq_iff)
  from C2_lock_record [THEN iffD1, OF t] C2_lock_record [THEN iffD1, OF d]
  show ?thesis by blast
qed

text \<open>
  The claim as it was stated, that the commit title is the subject of the commit, fails
  for a commit whose message has a body. Here git prints \<open>Fix parser\<close> for the
  subject (format \<open>%s\<close>) and the subject, an empty line and \<open>Long explanation\<close>
  for the format \<open>%B\<close> that Retrieve asks for; the commit title that is recorded has
  all three lines.
\<close>

theorem C2_commit_body_counterexample:
  "strings_TrimSpace (stdout (exec_Run demo_sys_tagged []
       [''log'', ''-n'', ''1'', ''--pretty=%s'', ''abc123''] None ''/dst'')) = ''Fix parser'' \<and>
   fst (Retrieve demo_sys_tagged demo_opts ''/dst'' []) =
     Inr \<lparr>SHA = ''abc123'', Tags = [''v1.2.0''],
          CommitTitle = ''Fix parser'' @ [nl, nl] @ ''Long explanation''\<rparr> \<and>
   ''Fix parser'' @ [nl, nl] @ ''Long explanation'' \<noteq> ''Fix parser''"
  by code_simp

text \<open>
  C3. When a fetch runs the checkout of the configured ref, the git subprocesses it has
  run are, in this order and all in the destination directory: init; config of the
  credential helper with the credential file of the auth directory; remote add origin;
  fetch origin; the checkout with \<open>advice.detachedHead=false\<close>; and then submodule
  update --init --recursive. The submodule update is missing exactly when the checkout
  itself failed. No subprocess but the last one run can have failed, and one has failed
  exactly when the fetch returns an error.
\<close>

theorem C3_subprocess_order:
  assumes "fetch sys opts dstPath False tr = (res, tr')"
    and "([''-c'', ''advice.detachedHead=false'', ''checkout'', Ref opts], dstPath)
           \<in> set (execs (emitted tr tr'))"
  shows "\<exists>authDir.
     temp_NewTempDir sys tr ''git-auth'' = Inr authDir \<and>
     execs (emitted tr tr') =
       take (if ([''-c'', ''advice.detachedHead=false'', ''checkout'', Ref opts], dstPath)
                  \<in> set (failed_execs (emitted tr tr')) then 5 else 6)
         [([''init''], dstPath),
          ([''config'', ''credential.helper'',
            ''store --file '' @ filepath_Join authDir ''.git-credentials''], dstPath),
          ([''remote'', ''add'', ''origin'', URL opts], dstPath),
          ([''fetch'', ''origin''], dstPath),
          ([''-c'', ''advice.detachedHead=false'', ''checkout'', Ref opts], dstPath),
          ([''submodule'', ''update'', ''--init'', ''--recursive''], dstPath)] \<and>
     failed_execs (emitted tr tr') =
       (if res = None then [] else [last (execs (emitted tr tr'))])"
proof -
  let ?E = "emitted tr tr'"
  let ?co = "([''-c'', ''advice.detachedHead=false'', ''checkout'', Ref opts], dstPath)"
  from execs_fetch [OF assms(1)] assms(2) obtain d n where
    d: "temp_NewTempDir sys tr ''git-auth'' = Inr d"
      "n \<le> length (fetch_argss opts (filepath_Join d ''.git-credentials'') False)"
      "res = None \<longrightarrow> n = length (fetch_argss opts (filepath_Join d ''.git-credentials'') False)"
      "execs ?E =
         map (\<lambda>a. (a, dstPath)) (take n (fetch_argss opts (filepath_Join d ''.git-credentials'') False))"
    by auto
  from assms(2) d(4) have "5 \<le> n"
    by (auto dest: checkout_position simp del: set_map)
  moreover from d(2) have "n \<le> 6" by (simp add: fetch_argss_def)
  ultimately have k: "n = 5 \<or> n = 6" by linarith
  from d(3) have s: "res = None \<longrightarrow> n = 6" by (simp add: fetch_argss_def)
  from assms(2) have ne: "execs ?E \<noteq> []" by auto
  with fetch_failed_execs [OF assms(1)]
  have f: "failed_execs ?E = (if res = None then [] else [last (execs ?E)])" by simp
  let ?six = "[([''init''], dstPath),
          ([''config'', ''credential.helper'',
            ''store --file '' @ filepath_Join d ''.git-credentials''], dstPath),
          ([''remote'', ''add'', ''origin'', URL opts], dstPath),
          ([''fetch'', ''origin''], dstPath),
          ?co,
          ([''submodule'', ''update'', ''--init'', ''--recursive''], dstPath)]"
  from d(4) have ex: "execs ?E = take n ?six"
    by (simp add: fetch_argss_def take_map [symmetric])
  have m: "(?co \<in> set (failed_execs ?E)) = (n = 5)"
  proof (cases "n = 5")
    case True
    with s have "res \<noteq> None" by auto
    moreover from ex True have "last (execs ?E) = ?co" by simp
    ultimately show ?thesis using f True by simp
  next
    case False
    with k have n: "n = 6" by simp
    with ex have "last (execs ?E) \<noteq> ?co" by simp
    with f False show ?thesis by (cases "res = None") simp_all
  qed
  have "execs ?E = take (if ?co \<in> set (failed_execs ?E) then 5 else 6) ?six"
    using k ex by (simp only: m) auto
  with d(1) f show ?thesis by blast
qed

text \<open>Three fetches: one succeeds, one fails at the checkout and stops there, one fails
  at the submodule update after all six subprocesses.\<close>

theorem C3_subprocess_order_witness:
  "execs (emitted [] (snd (fetch demo_sys demo_opts ''/dst'' False []))) =
     [([''init''], ''/dst''),
      ([''config'', ''credential.helper'', ''store --file /tmp/git-auth/.git-credentials''], ''/dst''),
      ([''remote'', ''add'', ''origin'', ''https://example.com/repo.git''], ''/dst''),
      ([''fetch'', ''origin''], ''/dst''),
      ([''-c'', ''advice.detachedHead=false'', ''checkout'', ''main''], ''/dst''),
      ([''submodule'', ''update'', ''--init'', ''--recursive''], ''/dst'')] \<and>
   failed_execs (emitted [] (snd (fetch demo_sys demo_opts ''/dst'' False []))) = [] \<and>
   execs (emitted [] (snd (fetch (demo_sys_failing ''checkout'') demo_opts ''/dst'' False []))) =
     [([''init''], ''/dst''),
      ([''config'', ''credential.helper'', ''store --file /tmp/git-auth/.git-credentials''], ''/dst''),
      ([''remote'', ''add'', ''origin'', ''https://example.com/repo.git''], ''/dst''),
      ([''fetch'', ''origin''], ''/dst''),
      ([''-c'', ''advice.detachedHead=false'', ''checkout'', ''main''], ''/dst'')] \<and>
   failed_execs (emitted [] (snd (fetch (demo_sys_failing ''checkout'') demo_opts ''/dst'' False []))) =
     [([''-c'', ''advice.detachedHead=false'', ''checkout'', ''main''], ''/dst'')] \<and>
   execs (emitted [] (snd (fetch (demo_sys_failing ''submodule'') demo_opts ''/dst'' False []))) =
     [([''init''], ''/dst''),
      ([''config'', ''credential.helper'', ''store --file /tmp/git-auth/.git-credentials''], ''/dst''),
      ([''remote'', ''add'', ''origin'', ''https://example.com/repo.git''], ''/dst''),
      ([''fetch'', ''origin''], ''/dst''),
      ([''-c'', ''advice.detachedHead=false'', ''checkout'', ''main''], ''/dst''),
      ([''submodule'', ''update'', ''--init'', ''--recursive''], ''/dst'')] \<and>
   failed_execs (emitted [] (snd (fetch (demo_sys_failing ''submodule'') demo_opts ''/dst'' False []))) =
     [([''submodule'', ''update'', ''--init'', ''--recursive''], ''/dst'')]"
proof -
  let ?co = "([''-c'', ''advice.detachedHead=false'', ''checkout'', Ref demo_opts], ''/dst'')"
  let ?ok = "fetch demo_sys demo_opts ''/dst'' False []"
  let ?cf = "fetch (demo_sys_failing ''checkout'') demo_opts ''/dst'' False []"
  let ?sf = "fetch (demo_sys_failing ''submodule'') demo_opts ''/dst'' False []"
  have r: "fst ?ok = None" "fst ?cf \<noteq> None" "fst ?sf \<noteq> None" by code_simp+
  have m: "?co \<in> set (execs (emitted [] (snd ?ok)))"
    "?co \<in> set (execs (emitted [] (snd ?cf)))"
    "?co \<in> set (execs (emitted [] (snd ?sf)))"
    by code_simp+
  have f: "?co \<notin> set (failed_execs (emitted [] (snd ?ok)))"
    "?co \<in> set (failed_execs (emitted [] (snd ?cf)))"
    "?co \<notin> set (failed_execs (emitted [] (snd ?sf)))"
    by code_simp+
  have t: "temp_NewTempDir demo_sys [] ''git-auth'' = Inr ''/tmp/git-auth''"
    "temp_NewTempDir (demo_sys_failing ''checkout'') [] ''git-auth'' = Inr ''/tmp/git-auth''"
    "temp_NewTempDir (demo_sys_failing ''submodule'') [] ''git-auth'' = Inr ''/tmp/git-auth''"
    by (simp_all add: demo_sys_def demo_sys_failing_def)
  have j: "filepath_Join ''/tmp/git-auth'' ''.git-credentials'' = ''/tmp/git-auth/.git-credentials''"
    by (simp add: filepath_Join_def)
  from C3_subprocess_order [OF prod.collapse [symmetric] m(1)] r(1) f(1) t(1) j
  have 1: "execs (emitted [] (snd ?ok)) =
     [([''init''], ''/dst''),
      ([''config'', ''credential.helper'', ''store --file /tmp/git-auth/.git-credentials''], ''/dst''),
      ([''remote'', ''add'', ''origin'', ''https://example.com/repo.git''], ''/dst''),
      ([''fetch'', ''origin''], ''/dst''),
      ([''-c'', ''advice.detachedHead=false'', ''checkout'', ''main''], ''/dst''),
      ([''submodule'', ''update'', ''--init'', ''--recursive''], ''/dst'')] \<and>
    failed_execs (emitted [] (snd ?ok)) = []"
    by (auto simp: demo_opts_def)
  from C3_subprocess_order [OF prod.collapse [symmetric] m(2)] r(2) f(2) t(2) j
  have 2: "execs (emitted [] (snd ?cf)) =
     [([''init''], ''/dst''),
      ([''config'', ''credential.helper'', ''store --file /tmp/git-auth/.git-credentials''], ''/dst''),
      ([''remote'', ''add'', ''origin'', ''https://example.com/repo.git''], ''/dst''),
      ([''fetch'', ''origin''], ''/dst''),
      ([''-c'', ''advice.detachedHead=false'', ''checkout'', ''main''], ''/dst'')] \<and>
    failed_execs (emitted [] (snd ?cf)) =
     [([''-c'', ''advice.detachedHead=false'', ''checkout'', ''main''], ''/dst'')]"
    by (auto simp: demo_opts_def)
  from C3_subprocess_order [OF prod.collapse [symmetric] m(3)] r(3) f(3) t(3) j
  have 3: "execs (emitted [] (snd ?sf)) =
     [([''init''], ''/dst''),
      ([''config'', ''credential.helper'', ''store --file /tmp/git-auth/.git-credentials''], ''/dst''),
      ([''remote'', ''add'', ''origin'', ''https://example.com/repo.git''], ''/dst''),
      ([''fetch'', ''origin''], ''/dst''),
      ([''-c'', ''advice.detachedHead=false'', ''checkout'', ''main''], ''/dst''),
      ([''submodule'', ''update'', ''--init'', ''--recursive''], ''/dst'')] \<and>
    failed_execs (emitted [] (snd ?sf)) =
     [([''submodule'', ''update'', ''--init'', ''--recursive''], ''/dst'')]"
    by (auto simp: demo_opts_def)
  from 1 2 3 show ?thesis by simp
qed

text \<open>
  C4. When the configured URL is empty or the configured ref is empty, Retrieve returns
  a validation error and has no effect at all: no temp directory, no file, no git
  subprocess, no line in the info log.
\<close>

theorem C4_validation_error:
  "URL opts = [] \<or> Ref opts = [] \<Longrightarrow>
   Retrieve sys opts dstPath tr =
     (Inl (if URL opts = [] then ''Expected non-empty URL''
           else ''Expected non-empty ref (could be branch, tag, commit)''), tr)"
  by (auto simp: Retrieve_def)

theorem C4_validation_error_witness:
  "(URL (demo_opts\<lparr>Ref := []\<rparr>) = [] \<or> Ref (demo_opts\<lparr>Ref := []\<rparr>) = []) \<and>
   Retrieve demo_sys (demo_opts\<lparr>Ref := []\<rparr>) ''/dst'' [] =
     (Inl ''Expected non-empty ref (could be branch, tag, commit)'', []) \<and>
   Retrieve demo_sys (demo_opts\<lparr>URL := []\<rparr>) ''/dst'' [] = (Inl ''Expected non-empty URL'', [])"
  using C4_validation_error [of "demo_opts\<lparr>Ref := []\<rparr>" demo_sys "''/dst''" "[]"]
    C4_validation_error [of "demo_opts\<lparr>URL := []\<rparr>" demo_sys "''/dst''" "[]"]
  by (simp add: demo_opts_def)

text \<open>
  C5 (amended). When the git process fails, \<open>run\<close> returns an error made of the
  arguments, the error of the process and its captured standard error. When the failed
  subprocess is one of the fetch (init, config, remote add, fetch, checkout, submodule
  update), Retrieve returns that error after \<open>Cloning: \<close>; when it is rev-parse or
  log, Retrieve returns that error as it is. The failure of \<open>git describe\<close> is
  ignored: Retrieve goes on to run log, and returns what log decides, with no tags.
\<close>

theorem C5_subprocess_failure:
  "(run_err (exec_Run sys (tr0 @ [InfoLog (''--> git '' @ strings_Join args0 '' '' @ [nl])])
       args0 env0 dir0) = Some err0 \<longrightarrow>
    fst (run sys args0 env0 dir0 tr0) =
      Inl (''Git ['' @ strings_Join args0 '' '' @ '']: '' @ err0 @ '' (stderr: '' @
           stderr (exec_Run sys (tr0 @ [InfoLog (''--> git '' @ strings_Join args0 '' '' @ [nl])])
                     args0 env0 dir0) @ '')'')) \<and>
   (Retrieve sys opts dstPath tr = (r, tr') \<and> Exec args env dir p \<in> set (emitted tr tr') \<and>
    run_err p = Some err \<and> take 1 args \<noteq> [''describe''] \<longrightarrow>
    r = Inl ((if take 1 args = [''rev-parse''] \<or> take 1 args = [''log''] then []
              else ''Cloning: '') @ run_error args err (stderr p))) \<and>
   (Retrieve sys opts dstPath tr = (r, tr') \<and> Exec args env dir p \<in> set (emitted tr tr') \<and>
    run_err p = Some err \<and> take 1 args = [''describe''] \<longrightarrow>
    (\<exists>sha p4.
       last (emitted tr tr') = Exec [''log'', ''-n'', ''1'', ''--pretty=%B'', sha] None dstPath p4 \<and>
       r = (case run_err p4 of
              Some e \<Rightarrow> Inl (run_error [''log'', ''-n'', ''1'', ''--pretty=%B'', sha] e (stderr p4))
            | None \<Rightarrow> Inr \<lparr>SHA = sha, Tags = [], CommitTitle = strings_TrimSpace (stdout p4)\<rparr>)))"
proof (intro conjI impI)
  assume "run_err (exec_Run sys (tr0 @ [InfoLog (''--> git '' @ strings_Join args0 '' '' @ [nl])])
       args0 env0 dir0) = Some err0"
  then show "fst (run sys args0 env0 dir0 tr0) =
      Inl (''Git ['' @ strings_Join args0 '' '' @ '']: '' @ err0 @ '' (stderr: '' @
           stderr (exec_Run sys (tr0 @ [InfoLog (''--> git '' @ strings_Join args0 '' '' @ [nl])])
                     args0 env0 dir0) @ '')'')"
    by (simp add: run_def Let_def run_error_def fmt_strings_def)
next
  assume h: "Retrieve sys opts dstPath tr = (r, tr') \<and> Exec args env dir p \<in> set (emitted tr tr') \<and>
    run_err p = Some err \<and> take 1 args \<noteq> [''describe'']"
  then have R: "Retrieve sys opts dstPath tr = (r, tr')"
    and ev: "Exec args env dir p \<in> set (emitted tr tr')"
    and err: "run_err p = Some err" and nd: "take 1 args \<noteq> [''describe'']"
    by simp_all
  from R show "r = Inl ((if take 1 args = [''rev-parse''] \<or> take 1 args = [''log''] then []
              else ''Cloning: '') @ run_error args err (stderr p))"
  proof (cases rule: Retrieve_cases)
    case invalid
    with ev show ?thesis by simp
  next
    case (fetch_failed e tr1)
    with ev have ev1: "Exec args env dir p \<in> set (emitted tr tr1)" by simp
    from fetch_failed_exec [OF fetch_failed(1) ev1 err]
    have "e = run_error args err (stderr p)" by simp
    moreover from fetch_exec_args [OF fetch_failed(1) ev1]
    have "take 1 args \<noteq> [''rev-parse'']" "take 1 args \<noteq> [''log'']" by auto
    ultimately show ?thesis using fetch_failed(2) by simp
  next
    case (rev_parse_failed tr1 p2 e)
    from fetch_extends [OF rev_parse_failed(1)] obtain evs1 where evs1: "tr1 = tr @ evs1" by blast
    have "Exec args env dir p \<notin> set evs1"
      using fetch_no_failed_exec [OF rev_parse_failed(1), of args env dir p] err evs1 by auto
    with ev rev_parse_failed(3) evs1 have "args = [''rev-parse'', ''HEAD''] \<and> p = p2"
      by (auto simp: run_events_def)
    with rev_parse_failed(2,4) err show ?thesis by simp
  next
    case (log_run tr1 p2 p3 p4)
    from fetch_extends [OF log_run(1)] obtain evs1 where evs1: "tr1 = tr @ evs1" by blast
    have "Exec args env dir p \<notin> set evs1"
      using fetch_no_failed_exec [OF log_run(1), of args env dir p] err evs1 by auto
    with ev log_run(2,3) evs1 err nd
    have "args = [''log'', ''-n'', ''1'', ''--pretty=%B'', strings_TrimSpace (stdout p2)] \<and> p = p4"
      by (auto simp: run_events_def)
    with log_run(4) err show ?thesis by simp
  qed
next
  assume h: "Retrieve sys opts dstPath tr = (r, tr') \<and> Exec args env dir p \<in> set (emitted tr tr') \<and>
    run_err p = Some err \<and> take 1 args = [''describe'']"
  then have R: "Retrieve sys opts dstPath tr = (r, tr')"
    and ev: "Exec args env dir p \<in> set (emitted tr tr')"
    and err: "run_err p = Some err" and d: "take 1 args = [''describe'']"
    by simp_all
  let ?goal = "\<exists>sha p4.
       last (emitted tr tr') = Exec [''log'', ''-n'', ''1'', ''--pretty=%B'', sha] None dstPath p4 \<and>
       r = (case run_err p4 of
              Some e \<Rightarrow> Inl (run_error [''log'', ''-n'', ''1'', ''--pretty=%B'', sha] e (stderr p4))
            | None \<Rightarrow> Inr \<lparr>SHA = sha, Tags = [], CommitTitle = strings_TrimSpace (stdout p4)\<rparr>)"
  from R show ?goal
  proof (cases rule: Retrieve_cases)
    case invalid
    with ev show ?thesis by simp
  next
    case (fetch_failed e tr1)
    with ev have ev1: "Exec args env dir p \<in> set (emitted tr tr1)" by simp
    from fetch_exec_args [OF fetch_failed(1) ev1] d show ?thesis by auto
  next
    case (rev_parse_failed tr1 p2 e)
    from fetch_extends [OF rev_parse_failed(1)] obtain evs1 where evs1: "tr1 = tr @ evs1" by blast
    have "Exec args env dir p \<notin> set evs1"
      using fetch_no_failed_exec [OF rev_parse_failed(1), of args env dir p] err evs1 by auto
    with ev rev_parse_failed(3) evs1 have "args = [''rev-parse'', ''HEAD'']"
      by (auto simp: run_events_def)
    with d show ?thesis by simp
  next
    case (log_run tr1 p2 p3 p4)
    from fetch_extends [OF log_run(1)] obtain evs1 where evs1: "tr1 = tr @ evs1" by blast
    have "Exec args env dir p \<notin> set evs1"
      using fetch_no_failed_exec [OF log_run(1), of args env dir p] err evs1 by auto
    with ev log_run(2,3) evs1 err d have "p = p3"
      by (auto simp: run_events_def)
    with err have t: "run_err p3 = Some err" by simp
    have l: "last (emitted tr tr') =
        Exec [''log'', ''-n'', ''1'', ''--pretty=%B'', strings_TrimSpace (stdout p2)] None dstPath p4"
      using log_run(3) evs1 by (simp add: run_events_def emitted_def)
    from log_run(4) t l show ?thesis
      by - (rule exI [of _ "strings_TrimSpace (stdout p2)"], rule exI [of _ p4],
            simp split: option.splits)
  qed
qed

text \<open>Three runs of Retrieve: fetch origin fails, rev-parse fails, describe fails.\<close>

lemma demo_fetch_fails:
  "Exec [''fetch'', ''origin''] (Some [''PATH=/usr/bin'', ''GIT_SSH_COMMAND=ssh -v'']) ''/dst''
     (Proc (Some ''exit status 128'') [] ''fatal: unable to access'')
     \<in> set (emitted [] (snd (Retrieve demo_sys_fetch_fails demo_opts ''/dst'' [])))"
  by code_simp

lemma demo_rev_parse_fails:
  "Exec [''rev-parse'', ''HEAD''] None ''/dst''
     (Proc (Some ''exit status 1'') [] ''fatal: rev-parse'')
     \<in> set (emitted [] (snd (Retrieve (demo_sys_failing ''rev-parse'') demo_opts ''/dst'' [])))"
  by code_simp

lemma demo_describe_fails:
  "Exec [''describe'', ''--tags'', ''abc123''] None ''/dst''
     (Proc (Some ''exit status 128'') [] ''fatal: No names found'')
     \<in> set (emitted [] (snd (Retrieve demo_sys demo_opts ''/dst'' [])))"
  by code_simp

lemma demo_describe_last:
  "last (emitted [] (snd (Retrieve demo_sys demo_opts ''/dst'' []))) =
     Exec [''log'', ''-n'', ''1'', ''--pretty=%B'', ''abc123''] None ''/dst''
       (Proc None (''Initial commit'' @ [nl, nl]) [])"
  by code_simp

theorem C5_subprocess_failure_witness:
  "run_err (exec_Run demo_sys_fetch_fails [InfoLog (''--> git fetch origin'' @ [nl])]
       [''fetch'', ''origin''] None ''/dst'') = Some ''exit status 128'' \<and>
   fst (run demo_sys_fetch_fails [''fetch'', ''origin''] None ''/dst'' []) =
     Inl ''Git [fetch origin]: exit status 128 (stderr: fatal: unable to access)'' \<and>
   Exec [''fetch'', ''origin''] (Some [''PATH=/usr/bin'', ''GIT_SSH_COMMAND=ssh -v'']) ''/dst''
     (Proc (Some ''exit status 128'') [] ''fatal: unable to access'')
     \<in> set (emitted [] (snd (Retrieve demo_sys_fetch_fails demo_opts ''/dst'' []))) \<and>
   fst (Retrieve demo_sys_fetch_fails demo_opts ''/dst'' []) =
     Inl ''Cloning: Git [fetch origin]: exit status 128 (stderr: fatal: unable to access)'' \<and>
   Exec [''rev-parse'', ''HEAD''] None ''/dst''
     (Proc (Some ''exit status 1'') [] ''fatal: rev-parse'')
     \<in> set (emitted [] (snd (Retrieve (demo_sys_failing ''rev-parse'') demo_opts ''/dst'' []))) \<and>
   fst (Retrieve (demo_sys_failing ''rev-parse'') demo_opts ''/dst'' []) =
     Inl ''Git [rev-parse HEAD]: exit status 1 (stderr: fatal: rev-parse)'' \<and>
   Exec [''describe'', ''--tags'', ''abc123''] None ''/dst''
     (Proc (Some ''exit status 128'') [] ''fatal: No names found'')
     \<in> set (emitted [] (snd (Retrieve demo_sys demo_opts ''/dst'' []))) \<and>
   fst (Retrieve demo_sys demo_opts ''/dst'' []) =
     Inr \<lparr>SHA = ''abc123'', Tags = [],
          CommitTitle = strings_TrimSpace (''Initial commit'' @ [nl, nl])\<rparr>"
proof -
  have a: "run_err (exec_Run demo_sys_fetch_fails
             ([] @ [InfoLog (''--> git '' @ strings_Join [''fetch'', ''origin''] '' '' @ [nl])])
             [''fetch'', ''origin''] None ''/dst'') = Some ''exit status 128''"
    by (simp add: demo_sys_fetch_fails_def)
  have s: "stderr (exec_Run demo_sys_fetch_fails
             ([] @ [InfoLog (''--> git '' @ strings_Join [''fetch'', ''origin''] '' '' @ [nl])])
             [''fetch'', ''origin''] None ''/dst'') = ''fatal: unable to access''"
    by (simp add: demo_sys_fetch_fails_def)
  note fetch_world = C5_subprocess_failure [of demo_sys_fetch_fails "[]" "[''fetch'', ''origin'']" None
      "''/dst''" "''exit status 128''" demo_opts "''/dst''" "[]"
      "fst (Retrieve demo_sys_fetch_fails demo_opts ''/dst'' [])"
      "snd (Retrieve demo_sys_fetch_fails demo_opts ''/dst'' [])"
      "[''fetch'', ''origin'']" "Some [''PATH=/usr/bin'', ''GIT_SSH_COMMAND=ssh -v'']" "''/dst''"
      "Proc (Some ''exit status 128'') [] ''fatal: unable to access''" "''exit status 128''"]
  from fetch_world a s
  have 1: "fst (run demo_sys_fetch_fails [''fetch'', ''origin''] None ''/dst'' []) =
     Inl ''Git [fetch origin]: exit status 128 (stderr: fatal: unable to access)''"
    by simp
  from fetch_world demo_fetch_fails
  have 2: "fst (Retrieve demo_sys_fetch_fails demo_opts ''/dst'' []) =
     Inl ''Cloning: Git [fetch origin]: exit status 128 (stderr: fatal: unable to access)''"
    by (simp add: run_error_def fmt_strings_def)
  note rev_parse_world = C5_subprocess_failure [of "demo_sys_failing ''rev-parse''" "[]"
      "[''rev-parse'', ''HEAD'']" None "''/dst''" "''exit status 1''" demo_opts "''/dst''" "[]"
      "fst (Retrieve (demo_sys_failing ''rev-parse'') demo_opts ''/dst'' [])"
      "snd (Retrieve (demo_sys_failing ''rev-parse'') demo_opts ''/dst'' [])"
      "[''rev-parse'', ''HEAD'']" None "''/dst''"
      "Proc (Some ''exit status 1'') [] ''fatal: rev-parse''" "''exit status 1''"]
  from rev_parse_world demo_rev_parse_fails
  have 3: "fst (Retrieve (demo_sys_failing ''rev-parse'') demo_opts ''/dst'' []) =
     Inl ''Git [rev-parse HEAD]: exit status 1 (stderr: fatal: rev-parse)''"
    by (simp add: run_error_def fmt_strings_def)
  note describe_world = C5_subprocess_failure [of demo_sys "[]"
      "[''describe'', ''--tags'', ''abc123'']" None "''/dst''" "''exit status 128''" demo_opts
      "''/dst''" "[]"
      "fst (Retrieve demo_sys demo_opts ''/dst'' [])"
      "snd (Retrieve demo_sys demo_opts ''/dst'' [])"
      "[''describe'', ''--tags'', ''abc123'']" None "''/dst''"
      "Proc (Some ''exit status 128'') [] ''fatal: No names found''" "''exit status 128''"]
  from describe_world demo_describe_fails demo_describe_last
  have 4: "fst (Retrieve demo_sys demo_opts ''/dst'' []) =
     Inr \<lparr>SHA = ''abc123'', Tags = [],
          CommitTitle = strings_TrimSpace (''Initial commit'' @ [nl, nl])\<rparr>"
    by auto
  from a 1 demo_fetch_fails 2 demo_rev_parse_fails 3 demo_describe_fails 4
  show ?thesis by simp
qed

text \<open>
  The claim as it was stated, that Retrieve propagates the failure of every git
  subprocess, fails for \<open>git describe\<close>: here describe exits with an error and
  Retrieve returns a lock record.
\<close>

theorem C5_describe_counterexample:
  "Exec [''describe'', ''--tags'', ''abc123''] None ''/dst''
     (Proc (Some ''exit status 128'') [] ''fatal: No names found'')
     \<in> set (emitted [] (snd (Retrieve demo_sys demo_opts ''/dst'' []))) \<and>
   fst (Retrieve demo_sys demo_opts ''/dst'' []) =
     Inr \<lparr>SHA = ''abc123'', Tags = [], CommitTitle = ''Initial commit''\<rparr>"
  by code_simp

text \<open>
  C6 (amended). When the auth options have a username and a password and the URL does
  not start with \<open>https://\<close>, the fetch runs no git subprocess and fails. Its error
  is the one of the step that failed first: the error of the temp area when the auth
  directory could not be created; \<open>Writing private key: \<close> or
  \<open>Writing known hosts: \<close> with the error of the write when that file could not be
  written; and when these steps succeeded, the message that username and password
  authentication is only supported for https remotes.
\<close>

theorem C6_https_only:
  assumes "getAuthOpts sys opts = Inr authOpts"
    and "Username authOpts \<noteq> None" and "Password authOpts \<noteq> None"
    and "\<not> strings_HasPrefix (URL opts) ''https://''"
    and "fetch sys opts dstPath skeleton tr = (res, tr')"
  shows "execs (emitted tr tr') = [] \<and>
     (\<forall>e. NewTempDir ''git-auth'' (Inl e) \<in> set (emitted tr tr') \<longrightarrow> res = Some e) \<and>
     (\<forall>path content perm e. WriteFile path content perm (Some e) \<in> set (emitted tr tr') \<longrightarrow>
        (\<exists>authDir. NewTempDir ''git-auth'' (Inr authDir) \<in> set (emitted tr tr') \<and>
           (path = filepath_Join authDir ''private-key'' \<and>
              res = Some (''Writing private key: '' @ e) \<or>
            path = filepath_Join authDir ''known-hosts'' \<and>
              res = Some (''Writing known hosts: '' @ e)))) \<and>
     ((\<forall>e. NewTempDir ''git-auth'' (Inl e) \<notin> set (emitted tr tr')) \<and>
      (\<forall>path content perm e. WriteFile path content perm (Some e) \<notin> set (emitted tr tr')) \<longrightarrow>
      res = Some ''Username/password authentication is only supported for https remotes'')"
  using assms(5)
proof (cases rule: fetch_cases)
  case (auth_failed e)
  with assms(1) show ?thesis by simp
next
  case (temp_failed a e)
  then show ?thesis by simp
next
  case (body a d tr2)
  with assms(1) have a: "a = authOpts" by simp
  let ?tr1 = "tr @ [NewTempDir ''git-auth'' (Inr d)]"
  obtain r1 tr1 where s: "fetch_sshCmd sys a d ?tr1 = (r1, tr1)"
    by (cases "fetch_sshCmd sys a d ?tr1")
  from fetch_sshCmd_shape [OF s] obtain ws where
    ws: "tr1 = ?tr1 @ ws" "\<forall>ev\<in>set ws. cred_write d ev"
    by blast
  from fetch_sshCmd_failures [OF s] ws(1)
  have fl: "\<forall>path content perm e. WriteFile path content perm (Some e) \<in> set ws \<longrightarrow>
            path = filepath_Join d ''private-key'' \<and> r1 = Inl (''Writing private key: '' @ e) \<or>
            path = filepath_Join d ''known-hosts'' \<and> r1 = Inl (''Writing known hosts: '' @ e)"
    and ok: "(\<forall>path content perm e. WriteFile path content perm (Some e) \<notin> set ws) \<longrightarrow>
            (\<exists>c. r1 = Inr c)"
    by simp_all
  have body_eq: "(res, tr2) =
      (case r1 of Inl e \<Rightarrow> (Some e, tr1)
       | Inr c \<Rightarrow> (Some https_only_error, tr1))"
    using body(3) s a assms(2,3,4)
    by (simp add: fetch_body_def Let_def fetch_creds_not_https split: sum.splits)
  then have tr2: "tr2 = tr1" by (cases r1) simp_all
  with ws(1) body(4) have E: "emitted tr tr' = [NewTempDir ''git-auth'' (Inr d)] @ ws @ [RemoveAll d]"
    by (simp add: emitted_def)
  have 1: "execs (emitted tr tr') = []"
    using E ws(2) by (simp add: execs_cred_writes)
  have 2: "\<forall>e. NewTempDir ''git-auth'' (Inl e) \<notin> set (emitted tr tr')"
    using E ws(2) by (auto simp: cred_write_def)
  have 3: "\<forall>path content perm e. WriteFile path content perm (Some e) \<in> set (emitted tr tr') \<longrightarrow>
        (\<exists>authDir. NewTempDir ''git-auth'' (Inr authDir) \<in> set (emitted tr tr') \<and>
           (path = filepath_Join authDir ''private-key'' \<and>
              res = Some (''Writing private key: '' @ e) \<or>
            path = filepath_Join authDir ''known-hosts'' \<and>
              res = Some (''Writing known hosts: '' @ e)))"
  proof (intro allI impI)
    fix path content perm e
    assume "WriteFile path content perm (Some e) \<in> set (emitted tr tr')"
    with E have "WriteFile path content perm (Some e) \<in> set ws" by simp
    with fl have "path = filepath_Join d ''private-key'' \<and> r1 = Inl (''Writing private key: '' @ e) \<or>
            path = filepath_Join d ''known-hosts'' \<and> r1 = Inl (''Writing known hosts: '' @ e)"
      by blast
    with body_eq have "path = filepath_Join d ''private-key'' \<and>
              res = Some (''Writing private key: '' @ e) \<or>
            path = filepath_Join d ''known-hosts'' \<and>
              res = Some (''Writing known hosts: '' @ e)"
      by auto
    with E show "\<exists>authDir. NewTempDir ''git-auth'' (Inr authDir) \<in> set (emitted tr tr') \<and>
           (path = filepath_Join authDir ''private-key'' \<and>
              res = Some (''Writing private key: '' @ e) \<or>
            path = filepath_Join authDir ''known-hosts'' \<and>
              res = Some (''Writing known hosts: '' @ e))"
      by - (rule exI [of _ d], simp)
  qed
  have 4: "(\<forall>path content perm e. WriteFile path content perm (Some e) \<notin> set (emitted tr tr')) \<longrightarrow>
      res = Some ''Username/password authentication is only supported for https remotes''"
  proof
    assume "\<forall>path content perm e. WriteFile path content perm (Some e) \<notin> set (emitted tr tr')"
    with E have "\<forall>path content perm e. WriteFile path content perm (Some e) \<notin> set ws" by simp
    with ok obtain c where "r1 = Inr c" by blast
    with body_eq show "res = Some ''Username/password authentication is only supported for https remotes''"
      by (simp add: https_only_error_def)
  qed
  from 1 2 3 4 show ?thesis by blast
qed

theorem C6_https_only_witness:
  "getAuthOpts demo_sys (demo_basic_opts ''git@example.com:repo.git'') =
     Inr \<lparr>PrivateKey = None, KnownHosts = None, Username = Some ''u'', Password = Some ''p''\<rparr> \<and>
   \<not> strings_HasPrefix (URL (demo_basic_opts ''git@example.com:repo.git'')) ''https://'' \<and>
   fetch demo_sys (demo_basic_opts ''git@example.com:repo.git'') ''/dst'' False [] =
     (Some ''Username/password authentication is only supported for https remotes'',
      [NewTempDir ''git-auth'' (Inr ''/tmp/git-auth''), RemoveAll ''/tmp/git-auth'']) \<and>
   execs (emitted [] [NewTempDir ''git-auth'' (Inr ''/tmp/git-auth''), RemoveAll ''/tmp/git-auth'']) = []"
proof -
  let ?o = "demo_basic_opts ''git@example.com:repo.git''"
  let ?a = "\<lparr>PrivateKey = None, KnownHosts = None, Username = Some ''u'', Password = Some ''p''\<rparr>"
  let ?t = "[NewTempDir ''git-auth'' (Inr ''/tmp/git-auth''), RemoveAll ''/tmp/git-auth'']"
  have a: "getAuthOpts demo_sys ?o = Inr ?a" by code_simp
  have u: "Username ?a \<noteq> None" "Password ?a \<noteq> None" by simp_all
  have h: "\<not> strings_HasPrefix (URL ?o) ''https://''" by code_simp
  have t: "snd (fetch demo_sys ?o ''/dst'' False []) = ?t" by code_simp
  then have f: "fetch demo_sys ?o ''/dst'' False [] = (fst (fetch demo_sys ?o ''/dst'' False []), ?t)"
    by (simp add: prod_eq_iff)
  from C6_https_only [OF a u h f]
  have "fst (fetch demo_sys ?o ''/dst'' False []) =
          Some ''Username/password authentication is only supported for https remotes''"
    and "execs (emitted [] ?t) = []"
    by (simp_all add: emitted_def)
  with a h t show ?thesis by (simp add: prod_eq_iff)
qed

text \<open>
  The claim as it was stated, that the error is always the https message, fails when an
  earlier step of fetch fails: here the temp area cannot create the auth directory, and
  the fetch returns that error.
\<close>

theorem C6_temp_dir_counterexample:
  "getAuthOpts demo_sys_no_temp (demo_basic_opts ''git@example.com:repo.git'') =
     Inr \<lparr>PrivateKey = None, KnownHosts = None, Username = Some ''u'', Password = Some ''p''\<rparr> \<and>
   \<not> strings_HasPrefix (URL (demo_basic_opts ''git@example.com:repo.git'')) ''https://'' \<and>
   fst (fetch demo_sys_no_temp (demo_basic_opts ''git@example.com:repo.git'') ''/dst'' False []) =
     Some ''mkdir /tmp/git-auth: permission denied''"
  by code_simp

text \<open>
  C7. The ssh command that fetch builds starts with
  \<open>ssh -o ServerAliveInterval=30 -o ForwardAgent=no -F /dev/null\<close>. What follows is
  the identity file, when the auth options have a private key, and then the host key
  checking:
  \<open>StrictHostKeyChecking=yes\<close> with the known hosts file when the auth options have
  known hosts, \<open>StrictHostKeyChecking=no\<close> when they have none; the command never has
  both. The auth options have known hosts exactly when the secret of the configuration
  has the known hosts field. (The names of the private key field and of the known hosts
  field are different constants of package config.)
\<close>

theorem C7_ssh_command:
  assumes "getAuthOpts sys opts = Inr authOpts"
    and "SecretK8sCoreV1SSHAuthPrivateKey sys \<noteq> SecretSSHAuthKnownHosts sys"
    and "fetch_sshCmd sys authOpts authDir tr = (Inr (Some sshCmd), tr')"
  shows "take 7 sshCmd =
           [''ssh'', ''-o'', ''ServerAliveInterval=30'', ''-o'', ''ForwardAgent=no'',
            ''-F'', ''/dev/null''] \<and>
         drop 7 sshCmd =
           (case PrivateKey authOpts of
              None \<Rightarrow> []
            | Some key \<Rightarrow>
                [''-i'', filepath_Join authDir ''private-key'', ''-o'', ''IdentitiesOnly=yes'']) @
           (case KnownHosts authOpts of
              None \<Rightarrow> [''-o'', ''StrictHostKeyChecking=no'']
            | Some hosts \<Rightarrow>
                [''-o'', ''StrictHostKeyChecking=yes'',
                 ''-o'', ''UserKnownHostsFile='' @ filepath_Join authDir ''known-hosts'']) \<and>
         (''StrictHostKeyChecking=yes'' \<in> set sshCmd \<longleftrightarrow> KnownHosts authOpts \<noteq> None) \<and>
         (''StrictHostKeyChecking=no'' \<in> set sshCmd \<longleftrightarrow> KnownHosts authOpts = None) \<and>
         (KnownHosts authOpts \<noteq> None \<longleftrightarrow>
            (\<exists>name content. SecretRef opts = Some name \<and> GetSecret sys name = Inr content \<and>
               SecretSSHAuthKnownHosts sys \<in> fst ` set content))"
proof -
  from fetch_sshCmd_shape [OF assms(3)]
  have c: "sshCmd = sshCmd_base
                  @ (case PrivateKey authOpts of None \<Rightarrow> []
                     | Some key \<Rightarrow> [''-i'', filepath_Join authDir ''private-key'', ''-o'', ''IdentitiesOnly=yes''])
                  @ (case KnownHosts authOpts of
                       None \<Rightarrow> [''-o'', ''StrictHostKeyChecking=no'']
                     | Some hosts \<Rightarrow> [''-o'', ''StrictHostKeyChecking=yes'', ''-o'',
                          ''UserKnownHostsFile='' @ filepath_Join authDir ''known-hosts''])"
    by auto
  have l: "length sshCmd_base = 7" by (simp add: sshCmd_base_def)
  have b: "''StrictHostKeyChecking=yes'' \<notin> set sshCmd_base"
    "''StrictHostKeyChecking=no'' \<notin> set sshCmd_base"
    by (simp_all add: sshCmd_base_def)
  have t: "take 7 sshCmd = sshCmd_base" "drop 7 sshCmd =
           (case PrivateKey authOpts of
              None \<Rightarrow> []
            | Some key \<Rightarrow>
                [''-i'', filepath_Join authDir ''private-key'', ''-o'', ''IdentitiesOnly=yes'']) @
           (case KnownHosts authOpts of
              None \<Rightarrow> [''-o'', ''StrictHostKeyChecking=no'']
            | Some hosts \<Rightarrow>
                [''-o'', ''StrictHostKeyChecking=yes'',
                 ''-o'', ''UserKnownHostsFile='' @ filepath_Join authDir ''known-hosts''])"
    using l by (simp_all add: c)
  have y: "''StrictHostKeyChecking=yes'' \<in> set sshCmd \<longleftrightarrow> KnownHosts authOpts \<noteq> None"
    using b key_path_not_option [of authDir]
    by (subst c) (auto split: option.splits)
  have n: "''StrictHostKeyChecking=no'' \<in> set sshCmd \<longleftrightarrow> KnownHosts authOpts = None"
    using b key_path_not_option [of authDir]
    by (subst c) (auto split: option.splits)
  from t y n getAuthOpts_KnownHosts [OF assms(1,2)] show ?thesis
    by (simp add: sshCmd_base_def)
qed

theorem C7_ssh_command_witness:
  "fst (fetch_sshCmd demo_sys
          \<lparr>PrivateKey = Some ''KEY'', KnownHosts = Some ''HOSTS'', Username = None, Password = None\<rparr>
          ''/tmp/git-auth'' []) =
     Inr (Some [''ssh'', ''-o'', ''ServerAliveInterval=30'', ''-o'', ''ForwardAgent=no'',
                ''-F'', ''/dev/null'', ''-i'', ''/tmp/git-auth/private-key'', ''-o'',
                ''IdentitiesOnly=yes'', ''-o'', ''StrictHostKeyChecking=yes'', ''-o'',
                ''UserKnownHostsFile=/tmp/git-auth/known-hosts'']) \<and>
   fst (fetch_sshCmd demo_sys
          \<lparr>PrivateKey = None, KnownHosts = None, Username = Some ''u'', Password = Some ''p''\<rparr>
          ''/tmp/git-auth'' []) =
     Inr (Some [''ssh'', ''-o'', ''ServerAliveInterval=30'', ''-o'', ''ForwardAgent=no'',
                ''-F'', ''/dev/null'', ''-o'', ''StrictHostKeyChecking=no''])"
proof -
  let ?k = "\<lparr>PrivateKey = Some ''KEY'', KnownHosts = Some ''HOSTS'', Username = None, Password = None\<rparr>"
  let ?b = "\<lparr>PrivateKey = None, KnownHosts = None, Username = Some ''u'', Password = Some ''p''\<rparr>"
  have d: "SecretK8sCoreV1SSHAuthPrivateKey demo_sys \<noteq> SecretSSHAuthKnownHosts demo_sys"
    by (simp add: demo_sys_def)
  have a: "getAuthOpts demo_sys demo_key_opts = Inr ?k"
    "getAuthOpts demo_sys (demo_basic_opts ''https://example.com/repo.git'') = Inr ?b"
    by code_simp+
  obtain c1 t1 where s1: "fetch_sshCmd demo_sys ?k ''/tmp/git-auth'' [] = (Inr (Some c1), t1)"
    by (simp add: fetch_sshCmd_def fetch_private_key_def fetch_known_hosts_def IsPresent_def
          demo_sys_def Let_def)
  obtain c2 t2 where s2: "fetch_sshCmd demo_sys ?b ''/tmp/git-auth'' [] = (Inr (Some c2), t2)"
    by (simp add: fetch_sshCmd_def fetch_private_key_def fetch_known_hosts_def IsPresent_def
          demo_sys_def Let_def)
  from C7_ssh_command [OF a(1) d s1]
  have "take 7 c1 = [''ssh'', ''-o'', ''ServerAliveInterval=30'', ''-o'', ''ForwardAgent=no'',
                ''-F'', ''/dev/null'']"
    and "drop 7 c1 = [''-i'', ''/tmp/git-auth/private-key'', ''-o'',
                ''IdentitiesOnly=yes'', ''-o'', ''StrictHostKeyChecking=yes'', ''-o'',
                ''UserKnownHostsFile=/tmp/git-auth/known-hosts'']"
    by (simp_all add: filepath_Join_def)
  with append_take_drop_id [of 7 c1]
  have 1: "c1 = [''ssh'', ''-o'', ''ServerAliveInterval=30'', ''-o'', ''ForwardAgent=no'',
                ''-F'', ''/dev/null'', ''-i'', ''/tmp/git-auth/private-key'', ''-o'',
                ''IdentitiesOnly=yes'', ''-o'', ''StrictHostKeyChecking=yes'', ''-o'',
                ''UserKnownHostsFile=/tmp/git-auth/known-hosts'']"
    by simp
  from C7_ssh_command [OF a(2) d s2]
  have "take 7 c2 = [''ssh'', ''-o'', ''ServerAliveInterval=30'', ''-o'', ''ForwardAgent=no'',
                ''-F'', ''/dev/null'']"
    and "drop 7 c2 = [''-o'', ''StrictHostKeyChecking=no'']"
    by simp_all
  with append_take_drop_id [of 7 c2]
  have 2: "c2 = [''ssh'', ''-o'', ''ServerAliveInterval=30'', ''-o'', ''ForwardAgent=no'',
                ''-F'', ''/dev/null'', ''-o'', ''StrictHostKeyChecking=no'']"
    by simp
  from s1 s2 1 2 show ?thesis by simp
qed

text \<open>
  C8 (amended). Every git subprocess of a fetch runs with the ambient environment
  followed by what the engine appends. When the secret supplies an auth option (private
  key, known hosts, username or password), the engine appends
  \<open>GIT_SSH_COMMAND=\<close> with the ssh command built for this fetch, after the ambient
  entries, so that it overrides an ambient value of that variable. When there is no
  auth option the engine does not set the variable, and an ambient value stays in
  effect.
\<close>

theorem C8_ssh_command_env:
  assumes "fetch sys opts dstPath skeleton tr = (res, tr')"
    and "Exec args env dir p \<in> set (emitted tr tr')"
  shows "\<exists>authOpts authDir envl.
     getAuthOpts sys opts = Inr authOpts \<and> temp_NewTempDir sys tr ''git-auth'' = Inr authDir \<and>
     env = Some envl \<and>
     (if IsPresent authOpts then
        \<exists>sshCmd.
          fst (fetch_sshCmd sys authOpts authDir (tr @ [NewTempDir ''git-auth'' (Inr authDir)])) =
            Inr (Some sshCmd) \<and>
          envl = os_Environ sys @ [''GIT_SSH_COMMAND='' @ strings_Join sshCmd '' ''] @
                   (if LFSSkipSmudge opts then [''GIT_LFS_SKIP_SMUDGE=1''] else []) \<and>
          env_lookup envl ''GIT_SSH_COMMAND'' = Some (strings_Join sshCmd '' '')
      else
        envl = os_Environ sys @ (if LFSSkipSmudge opts then [''GIT_LFS_SKIP_SMUDGE=1''] else []) \<and>
        env_lookup envl ''GIT_SSH_COMMAND'' = env_lookup (os_Environ sys) ''GIT_SSH_COMMAND'')"
  using assms(1)
proof (cases rule: fetch_cases)
  case (auth_failed e)
  with assms(2) show ?thesis by simp
next
  case (temp_failed a e)
  with assms(2) show ?thesis by simp
next
  case (body a d tr2)
  let ?tr1 = "tr @ [NewTempDir ''git-auth'' (Inr d)]"
  from fetch_body_shape [OF body(3)] obtain ws rs c where
    sh: "tr2 = ?tr1 @ ws @ rs"
    "\<forall>ev\<in>set ws. cred_write d ev"
    "\<forall>ev\<in>set rs. run_event (Some (fetch_env sys opts c)) dstPath ev"
    "rs \<noteq> [] \<longrightarrow> fst (fetch_sshCmd sys a d ?tr1) = Inr c"
    by blast
  from sh(2) have "Exec args env dir p \<notin> set ws"
    by (auto simp: cred_write_def)
  with assms(2) sh(1) body(4) have in_rs: "Exec args env dir p \<in> set rs" by simp
  with sh(3) have env: "env = Some (fetch_env sys opts c)"
    by (auto simp: run_event_def)
  from in_rs sh(4) have c: "fst (fetch_sshCmd sys a d ?tr1) = Inr c" by auto
  obtain tr1' where "fetch_sshCmd sys a d ?tr1 = (Inr c, tr1')"
    using c by (cases "fetch_sshCmd sys a d ?tr1") auto
  from fetch_sshCmd_shape [OF this]
  have p: "IsPresent a \<longleftrightarrow> c \<noteq> None"
    by (auto split: option.splits)
  show ?thesis
  proof (cases c)
    case None
    with p body(1,2) env env_lookup_fetch_env(2) [of sys opts] show ?thesis
      by - (rule exI [of _ a], rule exI [of _ d], rule exI [of _ "fetch_env sys opts c"],
            simp add: fetch_env_eq)
  next
    case (Some cmd)
    with p body(1,2) env c env_lookup_fetch_env(1) [of sys opts cmd] show ?thesis
      by - (rule exI [of _ a], rule exI [of _ d], rule exI [of _ "fetch_env sys opts c"],
            simp add: fetch_env_eq)
  qed
qed

theorem C8_ssh_command_env_witness:
  "Exec [''init'']
     (Some [''PATH=/usr/bin'', ''GIT_SSH_COMMAND=ssh -v'',
            ''GIT_SSH_COMMAND=ssh -o ServerAliveInterval=30 -o ForwardAgent=no -F /dev/null -o StrictHostKeyChecking=no''])
     ''/dst'' (Proc None [] [])
     \<in> set (emitted [] (snd (fetch demo_sys (demo_basic_opts ''https://example.com/repo.git'')
                                 ''/dst'' False []))) \<and>
   env_lookup [''PATH=/usr/bin'', ''GIT_SSH_COMMAND=ssh -v'',
            ''GIT_SSH_COMMAND=ssh -o ServerAliveInterval=30 -o ForwardAgent=no -F /dev/null -o StrictHostKeyChecking=no'']
     ''GIT_SSH_COMMAND'' =
     Some ''ssh -o ServerAliveInterval=30 -o ForwardAgent=no -F /dev/null -o StrictHostKeyChecking=no''"
proof -
  let ?o = "demo_basic_opts ''https://example.com/repo.git''"
  let ?env = "[''PATH=/usr/bin'', ''GIT_SSH_COMMAND=ssh -v'',
            ''GIT_SSH_COMMAND=ssh -o ServerAliveInterval=30 -o ForwardAgent=no -F /dev/null -o StrictHostKeyChecking=no'']"
  let ?b = "\<lparr>PrivateKey = None, KnownHosts = None, Username = Some ''u'', Password = Some ''p''\<rparr>"
  have m: "Exec [''init''] (Some ?env) ''/dst'' (Proc None [] [])
     \<in> set (emitted [] (snd (fetch demo_sys ?o ''/dst'' False [])))"
    by code_simp
  have a: "getAuthOpts demo_sys ?o = Inr ?b" by code_simp
  have p: "IsPresent ?b" by (simp add: IsPresent_def)
  have c: "fst (fetch_sshCmd demo_sys ?b ''/tmp/git-auth'' ([] @ [NewTempDir ''git-auth'' (Inr ''/tmp/git-auth'')])) =
     Inr (Some [''ssh'', ''-o'', ''ServerAliveInterval=30'', ''-o'', ''ForwardAgent=no'',
                ''-F'', ''/dev/null'', ''-o'', ''StrictHostKeyChecking=no''])"
    by code_simp
  have t: "temp_NewTempDir demo_sys [] ''git-auth'' = Inr ''/tmp/git-auth''"
    by (simp add: demo_sys_def)
  from C8_ssh_command_env [OF prod.collapse [symmetric] m] a p t
  obtain sshCmd where
    "fst (fetch_sshCmd demo_sys ?b ''/tmp/git-auth'' ([] @ [NewTempDir ''git-auth'' (Inr ''/tmp/git-auth'')])) =
       Inr (Some sshCmd)"
    "env_lookup ?env ''GIT_SSH_COMMAND'' = Some (strings_Join sshCmd '' '')"
    by auto
  with c have "env_lookup ?env ''GIT_SSH_COMMAND'' =
     Some ''ssh -o ServerAliveInterval=30 -o ForwardAgent=no -F /dev/null -o StrictHostKeyChecking=no''"
    by auto
  with m show ?thesis by simp
qed

text \<open>
  The claim as it was stated, that every fetch sets \<open>GIT_SSH_COMMAND\<close>, fails for a
  fetch without a secret: git init runs with the ambient environment as it is, in which
  the variable has the ambient value.
\<close>

theorem C8_no_secret_counterexample:
  "getAuthOpts demo_sys demo_opts = Inr gitAuthOpts_zero \<and>
   os_Environ demo_sys = [''PATH=/usr/bin'', ''GIT_SSH_COMMAND=ssh -v''] \<and>
   Exec [''init''] (Some [''PATH=/usr/bin'', ''GIT_SSH_COMMAND=ssh -v'']) ''/dst'' (Proc None [] [])
     \<in> set (emitted [] (snd (fetch demo_sys demo_opts ''/dst'' False []))) \<and>
   env_lookup [''PATH=/usr/bin'', ''GIT_SSH_COMMAND=ssh -v''] ''GIT_SSH_COMMAND'' = Some ''ssh -v''"
  by code_simp

text \<open>
  C9. What a fetch does, on every path: nothing at all (the secret could not be
  read); or a failed attempt to create the temp auth directory; or the creation of
  the auth directory, then writes of credential files, then runs of git, then
  \<open>os.RemoveAll\<close> of the auth directory as the last effect before fetch returns. Every
  file that is written is written with mode 0600 and is \<open>private-key\<close>,
  \<open>known-hosts\<close> or \<open>.git-credentials\<close> in the auth directory.
\<close>

theorem C9_credential_files:
  assumes "fetch sys opts dstPath skeleton tr = (res, tr')"
  shows "emitted tr tr' = [] \<or>
         (\<exists>e. emitted tr tr' = [NewTempDir ''git-auth'' (Inl e)]) \<or>
         (\<exists>authDir ws rs env.
            emitted tr tr' = [NewTempDir ''git-auth'' (Inr authDir)] @ ws @ rs @ [RemoveAll authDir] \<and>
            (\<forall>ev\<in>set ws. cred_write authDir ev) \<and>
            (\<forall>ev\<in>set rs. run_event env dstPath ev))"
  using assms
proof (cases rule: fetch_cases)
  case (auth_failed e)
  then show ?thesis by simp
next
  case (temp_failed a e)
  then show ?thesis by simp
next
  case (body a d tr2)
  from fetch_body_shape [OF body(3)] obtain ws rs c where
    "tr2 = (tr @ [NewTempDir ''git-auth'' (Inr d)]) @ ws @ rs"
    "\<forall>ev\<in>set ws. cred_write d ev"
    "\<forall>ev\<in>set rs. run_event (Some (fetch_env sys opts c)) dstPath ev"
    by blast
  with body(4) show ?thesis
    by - (rule disjI2, rule disjI2, rule exI [of _ d], rule exI [of _ ws], rule exI [of _ rs],
          rule exI [of _ "Some (fetch_env sys opts c)"], simp)
qed

theorem C9_credential_files_witness:
  "take 3 (emitted [] (snd (fetch demo_sys demo_key_opts ''/dst'' False []))) =
     [NewTempDir ''git-auth'' (Inr ''/tmp/git-auth''),
      WriteFile ''/tmp/git-auth/private-key'' ''KEY'' perm_0600 None,
      WriteFile ''/tmp/git-auth/known-hosts'' ''HOSTS'' perm_0600 None] \<and>
   (\<exists>ws rs env.
     emitted [] (snd (fetch demo_sys demo_key_opts ''/dst'' False [])) =
       [NewTempDir ''git-auth'' (Inr ''/tmp/git-auth'')] @ ws @ rs @ [RemoveAll ''/tmp/git-auth''] \<and>
     (\<forall>ev\<in>set ws. cred_write ''/tmp/git-auth'' ev) \<and>
     (\<forall>ev\<in>set rs. run_event env ''/dst'' ev))"
proof -
  let ?t = "emitted [] (snd (fetch demo_sys demo_key_opts ''/dst'' False []))"
  have h: "take 3 ?t = [NewTempDir ''git-auth'' (Inr ''/tmp/git-auth''),
                        WriteFile ''/tmp/git-auth/private-key'' ''KEY'' perm_0600 None,
                        WriteFile ''/tmp/git-auth/known-hosts'' ''HOSTS'' perm_0600 None]"
    by code_simp
  have "fetch demo_sys demo_key_opts ''/dst'' False [] =
          (fst (fetch demo_sys demo_key_opts ''/dst'' False []),
           snd (fetch demo_sys demo_key_opts ''/dst'' False []))"
    by simp
  from C9_credential_files [OF this] h
  obtain authDir ws rs env where
    t: "?t = [NewTempDir ''git-auth'' (Inr authDir)] @ ws @ rs @ [RemoveAll authDir]"
      "\<forall>ev\<in>set ws. cred_write authDir ev" "\<forall>ev\<in>set rs. run_event env ''/dst'' ev"
    by auto
  from t(1) h have "authDir = ''/tmp/git-auth''" by simp
  with t h show ?thesis by blast
qed



end
